theory Spec2Isabelle
  imports Main "HOL-Library.AList"
begin

section \<open>Plans as state-passing programs that may raise\<close>

text \<open>
  A Bluesky plan is a Python generator: it hands instrument requests to the run engine
  (\<^verbatim>\<open>yield from sub_plan(...)\<close>), receives the sub-plan's return value, and may run
  ordinary Python statements in between. Nothing in the two notebooks contains a
  \<^verbatim>\<open>try\<close> statement, so an exception raised by any call ends the plan at that point.

  A program is therefore a function from the state before to an outcome and the state
  after. The outcome is \<open>Inr x\<close> for a normal return of \<open>x\<close> and \<open>Inl e\<close> for the
  exception \<open>e\<close>; the state after a raise is the state reached so far, as in Python, where
  the effects that happened before the raise stay.
\<close>

type_synonym uid = string

type_synonym ('a, 's, 'e) prog = "'s \<Rightarrow> ('e + 'a) \<times> 's"

definition ret :: "'a \<Rightarrow> ('a, 's, 'e) prog" where
  "ret x = (\<lambda>s. (Inr x, s))"

text \<open>Sequencing of two statements: the second runs only when the first returned.\<close>

definition bnd :: "('a, 's, 'e) prog \<Rightarrow> ('a \<Rightarrow> ('b, 's, 'e) prog) \<Rightarrow> ('b, 's, 'e) prog" where
  "bnd m f = (\<lambda>s. case m s of (Inl e, s') \<Rightarrow> (Inl e, s') | (Inr x, s') \<Rightarrow> f x s')"

text \<open>
  Python's exceptions, as far as the helpers of the notebooks can tell them apart;
  \<open>Other x\<close> is any other exception.
\<close>

datatype 'x py_exc = StopIteration | RuntimeError string | AttributeError string | Other 'x

text \<open>
  A function whose body contains \<^verbatim>\<open>yield\<close> is a generator function, and a plan is the
  generator it returns. An exception that leaves the body of a generator reaches whoever
  runs the generator as it is, with one exception: a \<^verbatim>\<open>StopIteration\<close> that is about to
  leave the body is replaced by \<^verbatim>\<open>RuntimeError("generator raised StopIteration")\<close>. This
  is Python's rule since version 3.7 (PEP 479); the kernel of the notebook with the plans
  is Python 3.7.7. \<open>generator body\<close> is the generator with the body \<open>body\<close>.
\<close>

definition pep479 :: "'x py_exc \<Rightarrow> 'x py_exc" where
  "pep479 e = (case e of StopIteration \<Rightarrow> RuntimeError ''generator raised StopIteration'' | _ \<Rightarrow> e)"

definition generator :: "('a, 's, 'x py_exc) prog \<Rightarrow> ('a, 's, 'x py_exc) prog" where
  "generator body =
     (\<lambda>s. case body s of (Inl e, s') \<Rightarrow> (Inl (pep479 e), s') | (Inr x, s') \<Rightarrow> (Inr x, s'))"

text \<open>
  The world a notebook cell runs in: the state owned by the imported frameworks (simulated
  hardware, run engine, data store), kept abstract as \<open>'hw\<close>; the notebook's own global
  variables \<open>'g\<close>; and a log of what the frameworks were asked to do, one entry for each
  completed request and one for each exception a request raised. The log is how the order
  of instrument actions is observed.
\<close>

datatype ('a, 'e) event = Did 'a | Raised 'e

record ('hw, 'a, 'e, 'g) world =
  hardware :: 'hw
  history :: "('a, 'e) event list"
  globals :: 'g

text \<open>
  A call into a framework function \<open>f\<close>, which works on the framework's state only. The
  argument \<open>evs\<close> says which actions a completed call is logged as.
\<close>

definition call :: "('r \<Rightarrow> 'a list) \<Rightarrow> ('r, 'hw, 'e) prog \<Rightarrow> ('r, ('hw, 'a, 'e, 'g) world, 'e) prog" where
  "call evs f = (\<lambda>w. case f (hardware w) of
      (Inl e, h') \<Rightarrow> (Inl e, w\<lparr>hardware := h', history := history w @ [Raised e]\<rparr>)
    | (Inr r, h') \<Rightarrow> (Inr r, w\<lparr>hardware := h', history := history w @ map Did (evs r)\<rparr>))"

text \<open>A pure library function that may raise (it has no state of its own).\<close>

definition call_pure :: "('e + 'r) \<Rightarrow> ('r, ('hw, 'a, 'e, 'g) world, 'e) prog" where
  "call_pure v = call (\<lambda>_. []) (\<lambda>h. (v, h))"

text \<open>Python's \<^verbatim>\<open>range(n)\<close> for an integer \<open>n\<close>: empty when \<open>n \<le> 0\<close>.\<close>

definition range_py :: "int \<Rightarrow> nat list" where
  "range_py n = [0..<nat n]"

text \<open>Python's \<^verbatim>\<open>str(i)\<close> for a non-negative integer: its decimal digits.\<close>

fun str :: "nat \<Rightarrow> string" where
  "str n = (if n < 10 then [''0123456789'' ! n]
            else str (n div 10) @ [''0123456789'' ! (n mod 10)])"

declare str.simps [simp del]


section \<open>Exposures and Dark Frames\<close>

subsection \<open>The imported beamline\<close>

text \<open>
  The notebook imports \<^verbatim>\<open>light\<close>, \<^verbatim>\<open>load_sample\<close>, \<^verbatim>\<open>sim_sleep\<close> and \<^verbatim>\<open>detector\<close> from
  \<^verbatim>\<open>simulated_hardware\<close>, \<^verbatim>\<open>count\<close> from Bluesky, and gets \<^verbatim>\<open>retrieve_im\<close> and
  \<^verbatim>\<open>simple_integration\<close> from \<^verbatim>\<open>utils.py\<close>. Their bodies are not part of the notebook, so
  they are parameters of the model: any functions of these types, each free to raise.
  Image subtraction is numpy's and is a parameter as well.
\<close>

datatype device = detector

record ('hw, 'img, 'c, 'e) beamline =
  hw_light :: "bool \<Rightarrow> (unit, 'hw, 'e) prog"
  hw_load_sample :: "int \<Rightarrow> (unit, 'hw, 'e) prog"
  hw_count :: "device list \<Rightarrow> (uid, 'hw, 'e) prog"
  hw_sim_sleep :: "int \<Rightarrow> (unit, 'hw, 'e) prog"
  hw_retrieve_im :: "uid \<Rightarrow> ('img, 'hw, 'e) prog"
  hw_image_sub :: "'img \<Rightarrow> 'img \<Rightarrow> 'e + 'img"
  hw_simple_integration :: "'img \<Rightarrow> 'e + 'c"

text \<open>
  The instrument actions that are logged. \<open>Shutter False\<close> is \<^verbatim>\<open>light(False)\<close>, which the
  notebook uses to close the shutter, \<open>Shutter True\<close> is \<^verbatim>\<open>light(True)\<close>, which opens it;
  \<open>Exposure u\<close> is a completed \<^verbatim>\<open>count([detector])\<close> whose run identifier is \<open>u\<close>.
\<close>

datatype action = Shutter bool | Sample int | Exposure uid | Sleep int

text \<open>
  The notebook's global variables that its helpers touch, and what was printed. The name
  \<^verbatim>\<open>new_int_list\<close> is bound to a list when the cell that defines \<^verbatim>\<open>custom_plan\<close> starts
  (\<^verbatim>\<open>new_int_list = []\<close>) and to a numpy array when that cell has finished
  (\<^verbatim>\<open>new_int_list = np.array(new_int_list).T\<close>); \<open>NdArray a\<close> is an array with the contents
  \<open>a\<close>.
\<close>

datatype 'c list_or_array = is_list: PyList "'c list list" | is_array: NdArray "'c list list"

record 'c notebook =
  new_int_list :: "'c list_or_array"
  stdout :: "string list"

type_synonym ('hw, 'c, 'e) cell = "('hw, action, 'e, 'c notebook) world"

definition light :: "('hw, 'img, 'c, 'e) beamline \<Rightarrow> bool \<Rightarrow> (unit, ('hw, 'c, 'e) cell, 'e) prog" where
  "light bl b = call (\<lambda>_. [Shutter b]) (hw_light bl b)"

definition load_sample :: "('hw, 'img, 'c, 'e) beamline \<Rightarrow> int \<Rightarrow> (unit, ('hw, 'c, 'e) cell, 'e) prog" where
  "load_sample bl sample_num = call (\<lambda>_. [Sample sample_num]) (hw_load_sample bl sample_num)"

definition count :: "('hw, 'img, 'c, 'e) beamline \<Rightarrow> device list \<Rightarrow> (uid, ('hw, 'c, 'e) cell, 'e) prog" where
  "count bl detectors = call (\<lambda>u. [Exposure u]) (hw_count bl detectors)"

definition sim_sleep :: "('hw, 'img, 'c, 'e) beamline \<Rightarrow> int \<Rightarrow> (unit, ('hw, 'c, 'e) cell, 'e) prog" where
  "sim_sleep bl t = call (\<lambda>_. [Sleep t]) (hw_sim_sleep bl t)"

definition retrieve_im :: "('hw, 'img, 'c, 'e) beamline \<Rightarrow> uid \<Rightarrow> ('img, ('hw, 'c, 'e) cell, 'e) prog" where
  "retrieve_im bl u = call (\<lambda>_. []) (hw_retrieve_im bl u)"

definition image_sub :: "('hw, 'img, 'c, 'e) beamline \<Rightarrow> 'img \<Rightarrow> 'img \<Rightarrow> ('img, ('hw, 'c, 'e) cell, 'e) prog" where
  "image_sub bl a b = call_pure (hw_image_sub bl a b)"

definition simple_integration :: "('hw, 'img, 'c, 'e) beamline \<Rightarrow> 'img \<Rightarrow> ('c, ('hw, 'c, 'e) cell, 'e) prog" where
  "simple_integration bl im = call_pure (hw_simple_integration bl im)"

text \<open>
  \<^verbatim>\<open>print(s)\<close> and \<^verbatim>\<open>new_int_list.append(x)\<close>: statements on the notebook's own state. A
  list has the method \<^verbatim>\<open>append\<close>; a numpy array has not, and the attribute lookup raises
  \<^verbatim>\<open>AttributeError\<close>. In a call \<^verbatim>\<open>new_int_list.append(f(y))\<close> Python evaluates the callee
  before the argument: \<open>new_int_list_append_lookup\<close> is the lookup of the method, which comes
  before the call of \<^verbatim>\<open>f\<close>, and \<open>new_int_list_append x\<close> the call of the method with the
  value \<open>x\<close> of the argument.
\<close>

definition print :: "string \<Rightarrow> (unit, ('hw, 'c, 'e) cell, 'e) prog" where
  "print s = (\<lambda>w. (Inr (), w\<lparr>globals := (globals w)\<lparr>stdout := stdout (globals w) @ [s]\<rparr>\<rparr>))"

definition new_int_list_append :: "'c list \<Rightarrow> (unit, ('hw, 'c, 'x py_exc) cell, 'x py_exc) prog" where
  "new_int_list_append x =
     (\<lambda>w. case new_int_list (globals w) of
        PyList xs \<Rightarrow> (Inr (), w\<lparr>globals := (globals w)\<lparr>new_int_list := PyList (xs @ [x])\<rparr>\<rparr>)
      | NdArray a \<Rightarrow> (Inl (AttributeError ''append''), w))"

definition new_int_list_append_lookup :: "(unit, ('hw, 'c, 'x py_exc) cell, 'x py_exc) prog" where
  "new_int_list_append_lookup =
     (\<lambda>w. case new_int_list (globals w) of
        PyList xs \<Rightarrow> (Inr (), w)
      | NdArray a \<Rightarrow> (Inl (AttributeError ''append''), w))"


subsection \<open>The plan \<^verbatim>\<open>dark_light_collection\<close>\<close>

text \<open>
  \<^verbatim>\<open>
  def dark_light_collection(sample_num, num_lights = 1):
      uids = []
      yield from light(False)
      yield from load_sample(sample_num)
      uid = yield from count([detector])
      uids.append(uid)
      yield from light(True)
      for i in range(num_lights):
          uid = yield from count([detector])
          uids.append(uid)
      yield from light(False)
      return uids
  \<close>
  The \<^verbatim>\<open>for\<close> loop is \<open>take_lights\<close>, a recursion over the values of \<open>i\<close> with the local
  list \<open>uids\<close> as accumulator.
\<close>

fun take_lights :: "('hw, 'img, 'c, 'e) beamline \<Rightarrow> nat list \<Rightarrow> uid list \<Rightarrow> (uid list, ('hw, 'c, 'e) cell, 'e) prog" where
  "take_lights bl [] uids = ret uids"
| "take_lights bl (i # is) uids =
     bnd (count bl [detector]) (\<lambda>uid. take_lights bl is (uids @ [uid]))"

definition dark_light_collection :: "('hw, 'img, 'c, 'e) beamline \<Rightarrow> int \<Rightarrow> int \<Rightarrow> (uid list, ('hw, 'c, 'e) cell, 'e) prog" where
  "dark_light_collection bl sample_num num_lights =
     bnd (light bl False) (\<lambda>_.
     bnd (load_sample bl sample_num) (\<lambda>_.
     bnd (count bl [detector]) (\<lambda>uid.
     bnd (light bl True) (\<lambda>_.
     bnd (take_lights bl (range_py num_lights) ([] @ [uid])) (\<lambda>uids.
     bnd (light bl False) (\<lambda>_.
     ret uids))))))"

text \<open>The call \<^verbatim>\<open>dark_light_collection(sample_num)\<close>, with the default \<^verbatim>\<open>num_lights = 1\<close>.\<close>

definition dark_light_collection_default :: "('hw, 'img, 'c, 'e) beamline \<Rightarrow> int \<Rightarrow> (uid list, ('hw, 'c, 'e) cell, 'e) prog" where
  "dark_light_collection_default bl sample_num = dark_light_collection bl sample_num 1"

text \<open>
  Reading the log. \<open>new_events w w'\<close> is what was logged between the states \<open>w\<close> and
  \<open>w'\<close>. \<open>exposures\<close> are the run identifiers of the completed detector exposures, in the
  order they were taken. \<open>shutter_after b\<close> is the shutter position after a log that started
  with the shutter at \<open>b\<close> (\<open>True\<close> is open): only \<^verbatim>\<open>light\<close> moves the shutter.
\<close>

definition new_events :: "('hw, 'a, 'e, 'g) world \<Rightarrow> ('hw, 'a, 'e, 'g) world \<Rightarrow> ('a, 'e) event list" where
  "new_events w w' = drop (length (history w)) (history w')"

fun exposures :: "(action, 'e) event list \<Rightarrow> uid list" where
  "exposures [] = []"
| "exposures (Did (Exposure u) # es) = u # exposures es"
| "exposures (_ # es) = exposures es"

fun shutter_after :: "bool \<Rightarrow> (action, 'e) event list \<Rightarrow> bool" where
  "shutter_after b [] = b"
| "shutter_after b (Did (Shutter b') # es) = shutter_after b' es"
| "shutter_after b (_ # es) = shutter_after b es"

text \<open>The shutter positions at which the exposures of a log were taken, in order.\<close>

fun exposure_shutters :: "bool \<Rightarrow> (action, 'e) event list \<Rightarrow> bool list" where
  "exposure_shutters b [] = []"
| "exposure_shutters b (Did (Shutter b') # es) = exposure_shutters b' es"
| "exposure_shutters b (Did (Exposure u) # es) = b # exposure_shutters b es"
| "exposure_shutters b (_ # es) = exposure_shutters b es"

text \<open>The framework never raises: every call of every beamline function returns.\<close>

definition returns :: "('a, 's, 'e) prog \<Rightarrow> bool" where
  "returns p = (\<forall>s. \<exists>x s'. p s = (Inr x, s'))"

definition acquisition_never_raises :: "('hw, 'img, 'c, 'e) beamline \<Rightarrow> bool" where
  "acquisition_never_raises bl =
     ((\<forall>b. returns (hw_light bl b)) \<and> (\<forall>n. returns (hw_load_sample bl n)) \<and>
      (\<forall>ds. returns (hw_count bl ds)))"


subsection \<open>The reduction helper \<^verbatim>\<open>process_data\<close>\<close>

text \<open>A statement run for each element of a list in turn, collecting the results.\<close>

fun for_each :: "('a \<Rightarrow> ('b, 's, 'e) prog) \<Rightarrow> 'a list \<Rightarrow> ('b list, 's, 'e) prog" where
  "for_each f [] = ret []"
| "for_each f (x # xs) = bnd (f x) (\<lambda>y. bnd (for_each f xs) (\<lambda>ys. ret (y # ys)))"

text \<open>
  Modelled from the spec: \<^verbatim>\<open>process_data\<close> is defined in \<^verbatim>\<open>utils.py\<close>, which the notebook
  runs but which is not among the sources; only its calls are. The spec describes it as the
  helper that "accepts that list of identifiers, retrieves the corresponding images from
  the external store, subtracts the first (dark) image from each subsequent (light) image,
  and applies an external azimuthal-integration routine to produce an intensity curve,
  optionally returning only the dark or only the light component". The calls in the
  notebook pass the options as \<^verbatim>\<open>return_light=True\<close> and \<^verbatim>\<open>return_dark=True\<close>. The spec does
  not say what an empty list or both options together give, so the model leaves these
  unspecified.
\<close>

fun process_data :: "('hw, 'img, 'c, 'e) beamline \<Rightarrow> uid list \<Rightarrow> bool \<Rightarrow> bool \<Rightarrow> ('c list, ('hw, 'c, 'e) cell, 'e) prog" where
  "process_data bl (dark_uid # light_uids) False False =
     bnd (retrieve_im bl dark_uid) (\<lambda>dark.
     bnd (for_each (retrieve_im bl) light_uids) (\<lambda>lights.
     bnd (for_each (\<lambda>l. image_sub bl l dark) lights) (\<lambda>diffs.
     for_each (simple_integration bl) diffs)))"
| "process_data bl (dark_uid # light_uids) True False =
     bnd (retrieve_im bl dark_uid) (\<lambda>dark.
     bnd (for_each (retrieve_im bl) light_uids) (\<lambda>lights.
     for_each (simple_integration bl) lights))"
| "process_data bl (dark_uid # light_uids) False True =
     bnd (retrieve_im bl dark_uid) (\<lambda>dark.
     bnd (for_each (retrieve_im bl) light_uids) (\<lambda>lights.
     for_each (simple_integration bl) [dark]))"

text \<open>
  In the framework state \<open>h\<close> the data store answers for each of the identifiers \<open>us\<close>
  with the image \<open>img_of u\<close>, and reading it leaves the state as it is.
\<close>

definition store_holds :: "('hw, 'img, 'c, 'e) beamline \<Rightarrow> 'hw \<Rightarrow> uid list \<Rightarrow> (uid \<Rightarrow> 'img) \<Rightarrow> bool" where
  "store_holds bl h us img_of = (\<forall>u \<in> set us. hw_retrieve_im bl u h = (Inr (img_of u), h))"

text \<open>
  Subtracting the image \<open>dark\<close> from each of the images \<open>ims\<close> succeeds and gives
  \<open>diff im dark\<close>; integrating an image succeeds and gives \<open>integrate im\<close>.
\<close>

definition subtraction_gives :: "('hw, 'img, 'c, 'e) beamline \<Rightarrow> 'img list \<Rightarrow> 'img \<Rightarrow> ('img \<Rightarrow> 'img \<Rightarrow> 'img) \<Rightarrow> bool" where
  "subtraction_gives bl ims dark diff = (\<forall>im \<in> set ims. hw_image_sub bl im dark = Inr (diff im dark))"

definition integration_gives :: "('hw, 'img, 'c, 'e) beamline \<Rightarrow> ('img \<Rightarrow> 'c) \<Rightarrow> bool" where
  "integration_gives bl integrate = (\<forall>im. hw_simple_integration bl im = Inr (integrate im))"


subsection \<open>The plan \<^verbatim>\<open>custom_plan\<close>\<close>

text \<open>
  \<^verbatim>\<open>
  new_int_list = []

  def custom_plan(sample_num, sleep_time = 0, num_loops=1):
      for i in range(num_loops):
          print ('on loop '+str(i))
          this_pair = yield from dark_light_collection(sample_num)
          new_int_list.append(process_data(this_pair))
          sim_sleep(sleep_time)
  \<close>
  \<^verbatim>\<open>new_int_list\<close> is a global of the notebook. The function has no \<^verbatim>\<open>return\<close>. It is a
  generator function, and so is \<^verbatim>\<open>dark_light_collection\<close>, whose body is the program
  above; \<^verbatim>\<open>process_data\<close>, \<^verbatim>\<open>sim_sleep\<close> and \<^verbatim>\<open>print\<close> are called as plain functions. In the
  fourth line of the loop the method \<^verbatim>\<open>new_int_list.append\<close> is looked up, then
  \<^verbatim>\<open>process_data(this_pair)\<close> is called, then the method.
\<close>

fun custom_loop :: "('hw, 'img, 'c, 'x py_exc) beamline \<Rightarrow> int \<Rightarrow> int \<Rightarrow> nat list \<Rightarrow> (unit, ('hw, 'c, 'x py_exc) cell, 'x py_exc) prog" where
  "custom_loop bl sample_num sleep_time [] = ret ()"
| "custom_loop bl sample_num sleep_time (i # is) =
     bnd (print (''on loop '' @ str i)) (\<lambda>_.
     bnd (generator (dark_light_collection_default bl sample_num)) (\<lambda>this_pair.
     bnd new_int_list_append_lookup (\<lambda>_.
     bnd (process_data bl this_pair False False) (\<lambda>reduced.
     bnd (new_int_list_append reduced) (\<lambda>_.
     bnd (sim_sleep bl sleep_time) (\<lambda>_.
     custom_loop bl sample_num sleep_time is))))))"

definition custom_plan :: "('hw, 'img, 'c, 'x py_exc) beamline \<Rightarrow> int \<Rightarrow> int \<Rightarrow> int \<Rightarrow> (unit, ('hw, 'c, 'x py_exc) cell, 'x py_exc) prog" where
  "custom_plan bl sample_num sleep_time num_loops =
     generator (custom_loop bl sample_num sleep_time (range_py num_loops))"


subsection \<open>A small simulated beamline\<close>

text \<open>
  An instance of the beamline parameters on which the plans can be run: a shutter, a
  sample position, a clock and a store of one-dimensional images. An exposure stores the
  image \<open>[1, 1]\<close> with the shutter closed and \<open>[1, 1 + sample]\<close> with it open; integration
  sums an image. It stands in for \<^verbatim>\<open>simulated_hardware\<close> in the examples below and is not
  derived from it.
\<close>

record sim_hw =
  shutter_open :: bool
  sample_loaded :: int
  clock :: int
  runs :: "(uid \<times> int list) list"

definition sim_count :: "device list \<Rightarrow> (uid, sim_hw, string) prog" where
  "sim_count ds h =
     (let u = ''run'' @ str (length (runs h));
          im = [1, if shutter_open h then 1 + sample_loaded h else 1]
      in (Inr u, h\<lparr>runs := runs h @ [(u, im)]\<rparr>))"

definition sim_retrieve_im :: "uid \<Rightarrow> (int list, sim_hw, string) prog" where
  "sim_retrieve_im u h =
     (case map_of (runs h) u of None \<Rightarrow> (Inl ''KeyError'', h) | Some im \<Rightarrow> (Inr im, h))"

definition sim_image_sub :: "int list \<Rightarrow> int list \<Rightarrow> string + int list" where
  "sim_image_sub a b =
     (if length a = length b then Inr (map (\<lambda>(x, y). x - y) (zip a b)) else Inl ''ValueError'')"

definition sim :: "(sim_hw, int list, int, string) beamline" where
  "sim = \<lparr>hw_light = (\<lambda>b h. (Inr (), h\<lparr>shutter_open := b\<rparr>)),
          hw_load_sample = (\<lambda>n h. (Inr (), h\<lparr>sample_loaded := n\<rparr>)),
          hw_count = sim_count,
          hw_sim_sleep = (\<lambda>t h. (Inr (), h\<lparr>clock := clock h + t\<rparr>)),
          hw_retrieve_im = sim_retrieve_im,
          hw_image_sub = sim_image_sub,
          hw_simple_integration = (\<lambda>im. Inr (sum_list im))\<rparr>"

text \<open>The same beamline with a detector that fails whenever the shutter is open.\<close>

definition faulty :: "(sim_hw, int list, int, string) beamline" where
  "faulty = sim\<lparr>hw_count :=
     (\<lambda>ds h. if shutter_open h then (Inl ''DetectorFault'', h) else sim_count ds h)\<rparr>"

text \<open>
  The simulated beamline with its errors as Python exceptions, and the same with an
  integration routine that raises \<^verbatim>\<open>StopIteration\<close>.
\<close>

definition relabel :: "('e \<Rightarrow> 'f) \<Rightarrow> ('a, 's, 'e) prog \<Rightarrow> ('a, 's, 'f) prog" where
  "relabel f p = (\<lambda>s. case p s of (Inl e, s') \<Rightarrow> (Inl (f e), s') | (Inr x, s') \<Rightarrow> (Inr x, s'))"

definition in_python :: "('hw, 'img, 'c, 'x) beamline \<Rightarrow> ('hw, 'img, 'c, 'x py_exc) beamline" where
  "in_python bl =
     \<lparr>hw_light = (\<lambda>b. relabel Other (hw_light bl b)),
      hw_load_sample = (\<lambda>n. relabel Other (hw_load_sample bl n)),
      hw_count = (\<lambda>ds. relabel Other (hw_count bl ds)),
      hw_sim_sleep = (\<lambda>t. relabel Other (hw_sim_sleep bl t)),
      hw_retrieve_im = (\<lambda>u. relabel Other (hw_retrieve_im bl u)),
      hw_image_sub = (\<lambda>a b. map_sum Other id (hw_image_sub bl a b)),
      hw_simple_integration = (\<lambda>im. map_sum Other id (hw_simple_integration bl im))\<rparr>"

definition stopping :: "(sim_hw, int list, int, string py_exc) beamline" where
  "stopping = (in_python sim)\<lparr>hw_simple_integration := (\<lambda>im. Inl StopIteration)\<rparr>"

text \<open>
  A fresh notebook session: shutter open, nothing measured, \<^verbatim>\<open>new_int_list = []\<close>; and the
  session with \<^verbatim>\<open>new_int_list\<close> rebound to an array, as the cell of \<^verbatim>\<open>custom_plan\<close> leaves it.
\<close>

definition fresh :: "(sim_hw, int, 'e) cell" where
  "fresh = \<lparr>hardware = \<lparr>shutter_open = True, sample_loaded = 0, clock = 0, runs = []\<rparr>,
            history = [],
            globals = \<lparr>new_int_list = PyList [], stdout = []\<rparr>\<rparr>"

definition rebound :: "(sim_hw, int, 'e) cell" where
  "rebound = \<lparr>hardware = \<lparr>shutter_open = True, sample_loaded = 0, clock = 0, runs = []\<rparr>,
              history = [],
              globals = \<lparr>new_int_list = NdArray [[1]], stdout = []\<rparr>\<rparr>"



text \<open>The store of the simulated beamline after \<^verbatim>\<open>dark_light_collection(5)\<close> on a fresh session.\<close>

definition measured :: "(sim_hw, int, string) cell" where
  "measured = \<lparr>hardware = \<lparr>shutter_open = False, sample_loaded = 5, clock = 0,
                   runs = [(''run0'', [1, 1]), (''run1'', [1, 6])]\<rparr>,
               history = [],
               globals = \<lparr>new_int_list = PyList [], stdout = []\<rparr>\<rparr>"


section \<open>What a run does to the log and to the state\<close>

text \<open>
  A program lets exceptions through when, on every run, what it adds to the log is a
  sequence of completed actions, followed by the exception it ends with when it raises
  and by nothing when it returns.
\<close>

definition lets_through :: "('a, ('hw, 'act, 'e, 'g) world, 'e) prog \<Rightarrow> bool" where
  "lets_through p =
     (\<forall>w r w'. p w = (r, w') \<longrightarrow>
        (\<exists>acts. history w' = history w @ map Did acts @ (case r of Inl e \<Rightarrow> [Raised e] | Inr _ \<Rightarrow> [])))"

text \<open>A program that never changes the notebook's global variables.\<close>

definition keeps_globals :: "('a, ('hw, 'act, 'e, 'g) world, 'e) prog \<Rightarrow> bool" where
  "keeps_globals p = (\<forall>w r w'. p w = (r, w') \<longrightarrow> globals w' = globals w)"





text \<open>
  What a statement in the body of \<^verbatim>\<open>custom_plan\<close> can do to the log: it adds completed
  actions; when it raises, either a framework call raised the exception last (up to the
  replacement of \<^verbatim>\<open>StopIteration\<close> in a generator), or the exception is the
  \<^verbatim>\<open>AttributeError\<close> of \<^verbatim>\<open>new_int_list.append\<close> on an array. Whether \<^verbatim>\<open>new_int_list\<close> is a
  list or an array never changes.
\<close>

definition accounted :: "('a, ('hw, 'c, 'x py_exc) cell, 'x py_exc) prog \<Rightarrow> bool" where
  "accounted p =
     (\<forall>w r w'. p w = (r, w') \<longrightarrow>
        is_array (new_int_list (globals w')) = is_array (new_int_list (globals w)) \<and>
        (\<exists>acts. case r of
           Inr _ \<Rightarrow> history w' = history w @ map Did acts
         | Inl e' \<Rightarrow>
             (\<exists>e. history w' = history w @ map Did acts @ [Raised e] \<and> pep479 e' = pep479 e) \<or>
             (history w' = history w @ map Did acts \<and> e' = AttributeError ''append'' \<and>
              is_array (new_int_list (globals w)))))"


section \<open>Bluesky and databroker demonstration\<close>

subsection \<open>The plan \<^verbatim>\<open>mega_plan\<close>\<close>

text \<open>
  \<^verbatim>\<open>
  def mega_plan(operator):
      base_md = {'operator': operator}
      for sample in ('A', 'B', 'C'):
          yield from bp.count([det], md={**base_md, 'role': 'calibration', 'sample': sample})
          yield from bp.scan([det], motor, -1, 3, 10, md={**base_md, 'role': 'ascan', 'sample': sample})
  \<close>
  \<^verbatim>\<open>bp.count\<close> and \<^verbatim>\<open>bp.scan\<close> are Bluesky's plans, each performing one run; they are
  parameters of the model. A metadata dictionary is an association list in insertion
  order; the dictionary display \<^verbatim>\<open>{**base_md, 'role': r, 'sample': s}\<close> copies \<^verbatim>\<open>base_md\<close>
  and then sets the two keys.
\<close>

datatype demo_device = det | motor

type_synonym md = "(string \<times> string) list"

datatype run = CountRun "demo_device list" md
  | ScanRun "demo_device list" demo_device int int int md

record ('hw, 'e) bluesky =
  hw_bp_count :: "demo_device list \<Rightarrow> md \<Rightarrow> (uid, 'hw, 'e) prog"
  hw_bp_scan :: "demo_device list \<Rightarrow> demo_device \<Rightarrow> int \<Rightarrow> int \<Rightarrow> int \<Rightarrow> md \<Rightarrow> (uid, 'hw, 'e) prog"

type_synonym ('hw, 'e) session = "('hw, run, 'e, unit) world"

definition bp_count :: "('hw, 'e) bluesky \<Rightarrow> demo_device list \<Rightarrow> md \<Rightarrow> (uid, ('hw, 'e) session, 'e) prog" where
  "bp_count bs detectors md = call (\<lambda>_. [CountRun detectors md]) (hw_bp_count bs detectors md)"

definition bp_scan :: "('hw, 'e) bluesky \<Rightarrow> demo_device list \<Rightarrow> demo_device \<Rightarrow> int \<Rightarrow> int \<Rightarrow> int \<Rightarrow> md \<Rightarrow> (uid, ('hw, 'e) session, 'e) prog" where
  "bp_scan bs detectors mot start stop num md =
     call (\<lambda>_. [ScanRun detectors mot start stop num md]) (hw_bp_scan bs detectors mot start stop num md)"

definition with_role_sample :: "md \<Rightarrow> string \<Rightarrow> string \<Rightarrow> md" where
  "with_role_sample base_md role sample =
     AList.update ''sample'' sample (AList.update ''role'' role base_md)"

fun mega_loop :: "('hw, 'e) bluesky \<Rightarrow> md \<Rightarrow> string list \<Rightarrow> (unit, ('hw, 'e) session, 'e) prog" where
  "mega_loop bs base_md [] = ret ()"
| "mega_loop bs base_md (sample # samples) =
     bnd (bp_count bs [det] (with_role_sample base_md ''calibration'' sample)) (\<lambda>_.
     bnd (bp_scan bs [det] motor (- 1) 3 10 (with_role_sample base_md ''ascan'' sample)) (\<lambda>_.
     mega_loop bs base_md samples))"

definition mega_plan :: "('hw, 'e) bluesky \<Rightarrow> string \<Rightarrow> (unit, ('hw, 'e) session, 'e) prog" where
  "mega_plan bs operator =
     (let base_md = [(''operator'', operator)]
      in mega_loop bs base_md [''A'', ''B'', ''C''])"

definition plans_never_raise :: "('hw, 'e) bluesky \<Rightarrow> bool" where
  "plans_never_raise bs =
     ((\<forall>ds m. returns (hw_bp_count bs ds m)) \<and>
      (\<forall>ds mot a b n m. returns (hw_bp_scan bs ds mot a b n m)))"

text \<open>
  A run engine to try the plan on: its state is the number of runs made so far, and a run's
  identifier is that number.
\<close>

definition counting :: "(nat, string) bluesky" where
  "counting = \<lparr>hw_bp_count = (\<lambda>ds m k. (Inr (str k), Suc k)),
               hw_bp_scan = (\<lambda>ds mot a b n m k. (Inr (str k), Suc k))\<rparr>"

definition blank :: "(nat, string) session" where
  "blank = \<lparr>hardware = 0, history = [], globals = ()\<rparr>"


section \<open>Reasoning about programs\<close>

lemma bnd_apply:
  "bnd m f s = (case m s of (Inl e, s') \<Rightarrow> (Inl e, s') | (Inr x, s') \<Rightarrow> f x s')"
  by (simp add: bnd_def)

lemma ret_apply: "ret x s = (Inr x, s)"
  by (simp add: ret_def)

lemma bndE:
  assumes "bnd m f s = (r, s'')"
  obtains (raise) e where "m s = (Inl e, s'')" "r = Inl e"
    | (return) x s' where "m s = (Inr x, s')" "f x s' = (r, s'')"
  using assms by (auto simp: bnd_def split: prod.splits sum.splits)

lemma retE:
  assumes "ret x s = (r, s')"
  obtains "r = Inr x" "s' = s"
  using assms by (auto simp: ret_def)

lemma callE:
  assumes "call evs f w = (r, w')"
  obtains (raise) e h' where "f (hardware w) = (Inl e, h')" "r = Inl e"
      "w' = w\<lparr>hardware := h', history := history w @ [Raised e]\<rparr>"
    | (return) x h' where "f (hardware w) = (Inr x, h')" "r = Inr x"
      "w' = w\<lparr>hardware := h', history := history w @ map Did (evs x)\<rparr>"
  using assms by (auto simp: call_def split: prod.splits sum.splits)

lemma returns_ret: "returns (ret x)"
  by (simp add: returns_def ret_def)

lemma returns_bnd:
  assumes "returns m" and "\<And>x. returns (f x)"
  shows "returns (bnd m f)"
  unfolding returns_def
proof
  fix s
  from assms(1) obtain x s' where m: "m s = (Inr x, s')"
    unfolding returns_def by blast
  from assms(2)[of x] obtain y s'' where "f x s' = (Inr y, s'')"
    unfolding returns_def by blast
  with m show "\<exists>y s''. bnd m f s = (Inr y, s'')"
    by (simp add: bnd_apply)
qed

lemma returns_call:
  fixes f :: "('r, 'hw, 'e) prog" and evs :: "'r \<Rightarrow> 'a list"
  assumes "returns f"
  shows "returns (call evs f :: ('r, ('hw, 'a, 'e, 'g) world, 'e) prog)"
proof -
  have "\<exists>x w'. call evs f w = (Inr x, w')" for w :: "('hw, 'a, 'e, 'g) world"
  proof -
    from assms obtain x h' where "f (hardware w) = (Inr x, h')"
      unfolding returns_def by blast
    then show ?thesis by (simp add: call_def)
  qed
  then show ?thesis unfolding returns_def by blast
qed

lemma new_events_append: "history w' = history w @ evs \<Longrightarrow> new_events w w' = evs"
  by (simp add: new_events_def)


section \<open>Properties of \<^verbatim>\<open>dark_light_collection\<close>\<close>

subsection \<open>Reading the log\<close>

lemma exposures_append: "exposures (xs @ ys) = exposures xs @ exposures ys"
  by (induction xs rule: exposures.induct) simp_all


lemma exposure_shutters_append:
  "exposure_shutters b (xs @ ys) = exposure_shutters b xs @ exposure_shutters (shutter_after b xs) ys"
  by (induction b xs rule: exposure_shutters.induct) simp_all

lemma exposures_lights: "exposures (map (\<lambda>u. Did (Exposure u)) ls) = ls"
  by (induction ls) simp_all


lemma exposure_shutters_lights:
  "exposure_shutters b (map (\<lambda>u. Did (Exposure u)) ls) = replicate (length ls) b"
  by (induction ls) simp_all

subsection \<open>What one run of the plan does\<close>

lemma light_outcome:
  assumes "light bl b w = (r, w')"
  shows "globals w' = globals w \<and>
    (case r of Inr _ \<Rightarrow> history w' = history w @ [Did (Shutter b)]
             | Inl e \<Rightarrow> history w' = history w @ [Raised e])"
  using assms by (auto simp: light_def elim!: callE)

lemma load_sample_outcome:
  assumes "load_sample bl s w = (r, w')"
  shows "globals w' = globals w \<and>
    (case r of Inr _ \<Rightarrow> history w' = history w @ [Did (Sample s)]
             | Inl e \<Rightarrow> history w' = history w @ [Raised e])"
  using assms by (auto simp: load_sample_def elim!: callE)

lemma count_outcome:
  assumes "count bl ds w = (r, w')"
  shows "globals w' = globals w \<and>
    (case r of Inr u \<Rightarrow> history w' = history w @ [Did (Exposure u)]
             | Inl e \<Rightarrow> history w' = history w @ [Raised e])"
  using assms by (auto simp: count_def elim!: callE)

text \<open>
  The loop over the light exposures: it leaves the notebook's globals alone; when it
  returns it has taken one exposure for each value of the loop variable and appended their
  identifiers to \<open>uids\<close> in order; when it raises, the log ends with the exception, after
  fewer exposures.
\<close>

lemma take_lights_outcome:
  assumes "take_lights bl is uids w = (r, w')"
  shows "globals w' = globals w \<and>
    (\<exists>ls. case r of
       Inr us \<Rightarrow> us = uids @ ls \<and> length ls = length is \<and>
                 history w' = history w @ map (\<lambda>u. Did (Exposure u)) ls
     | Inl e \<Rightarrow> length ls < length is \<and>
                 history w' = history w @ map (\<lambda>u. Did (Exposure u)) ls @ [Raised e])"
  using assms
proof (induction "is" arbitrary: uids w)
  case Nil
  then show ?case by (auto elim!: retE)
next
  case (Cons i "is")
  from Cons.prems show ?case
  proof (simp, elim bndE)
    fix e assume "count bl [detector] w = (Inl e, w')" "r = Inl e"
    then show ?thesis
      by (auto simp: count_def elim!: callE intro!: exI[of _ "[]"])
  next
    fix u w1 assume c: "count bl [detector] w = (Inr u, w1)"
      and t: "take_lights bl is (uids @ [u]) w1 = (r, w')"
    from c have w1: "globals w1 = globals w" "history w1 = history w @ [Did (Exposure u)]"
      by (auto simp: count_def elim!: callE)
    from Cons.IH[OF t] obtain ls where g: "globals w' = globals w1" and
      ls: "case r of
         Inr us \<Rightarrow> us = (uids @ [u]) @ ls \<and> length ls = length is \<and>
                   history w' = history w1 @ map (\<lambda>u. Did (Exposure u)) ls
       | Inl e \<Rightarrow> length ls < length is \<and>
                   history w' = history w1 @ map (\<lambda>u. Did (Exposure u)) ls @ [Raised e]"
      by blast
    show ?thesis using g w1 ls
      by (auto intro!: exI[of _ "u # ls"] split: sum.splits)
  qed
qed

lemma dark_light_collection_outcome:
  assumes "dark_light_collection bl s n w = (r, w')"
  shows "globals w' = globals w \<and>
    (case r of
       Inr us \<Rightarrow> \<exists>d ls. us = d # ls \<and> length ls = nat n \<and>
         history w' = history w @
           map Did ([Shutter False, Sample s, Exposure d, Shutter True] @ map Exposure ls @ [Shutter False])
     | Inl e \<Rightarrow> \<exists>acts. history w' = history w @ map Did acts @ [Raised e] \<and>
         (acts = [] \<or> acts = [Shutter False] \<or> acts = [Shutter False, Sample s] \<or>
          (\<exists>d ls. length ls \<le> nat n \<and>
             (acts = [Shutter False, Sample s, Exposure d] \<or>
              acts = [Shutter False, Sample s, Exposure d, Shutter True] @ map Exposure ls))))"
  using assms unfolding dark_light_collection_def
proof (elim bndE retE, goal_cases)
  case (1 e)
  then show ?case by (auto dest!: light_outcome intro!: exI[of _ "[]"])
next
  case (2 x s' e)
  then show ?case
    by (auto dest!: light_outcome load_sample_outcome intro!: exI[of _ "[Shutter False]"])
next
  case (3 x s' xa s'a e)
  then show ?case
    by (auto dest!: light_outcome load_sample_outcome count_outcome
        intro!: exI[of _ "[Shutter False, Sample s]"])
next
  case (4 x s' xa s'a xb s'b e)
  define acts where "acts = [Shutter False, Sample s, Exposure xb]"
  have h: "history w' = history w @ map Did acts @ [Raised e]"
    using 4 by (auto simp: acts_def dest!: light_outcome load_sample_outcome count_outcome)
  have g': "globals w' = globals w"
    using 4 by (auto dest!: light_outcome load_sample_outcome count_outcome)
  have "\<exists>d ls. length ls \<le> nat n \<and>
             (acts = [Shutter False, Sample s, Exposure d] \<or>
              acts = [Shutter False, Sample s, Exposure d, Shutter True] @ map Exposure ls)"
    unfolding acts_def by (intro exI[of _ xb] exI[of _ "[]"]) simp
  with g' h show ?case unfolding \<open>r = Inl e\<close> by (simp only: sum.case) blast
next
  case (5 x s' xa s'a xb s'b xc s'c e)
  from take_lights_outcome[OF 5(5)] 5(6) obtain ls where
    ls: "history w' = history s'c @ map (\<lambda>u. Did (Exposure u)) ls @ [Raised e]"
    and len: "length ls < length (range_py n)"
    and g: "globals w' = globals s'c"
    by auto
  define acts where "acts = [Shutter False, Sample s, Exposure xb, Shutter True] @ map Exposure ls"
  have h: "history w' = history w @ map Did acts @ [Raised e]"
    using 5(1-4) ls by (auto simp: acts_def dest!: light_outcome load_sample_outcome count_outcome)
  have g': "globals w' = globals w"
    using 5(1-4) g by (auto dest!: light_outcome load_sample_outcome count_outcome)
  from len have "length ls \<le> nat n" by (simp add: range_py_def)
  then have "\<exists>d ls. length ls \<le> nat n \<and>
             (acts = [Shutter False, Sample s, Exposure d] \<or>
              acts = [Shutter False, Sample s, Exposure d, Shutter True] @ map Exposure ls)"
    unfolding acts_def by blast
  with g' h show ?case unfolding \<open>r = Inl e\<close> by (simp only: sum.case) blast
next
  case (6 x s' xa s'a xb s'b xc s'c xd s'd e)
  from take_lights_outcome[OF 6(5)] obtain ls where
    ls: "history s'd = history s'c @ map (\<lambda>u. Did (Exposure u)) ls"
    and len: "length ls = length (range_py n)"
    and g: "globals s'd = globals s'c"
    by auto
  define acts where "acts = [Shutter False, Sample s, Exposure xb, Shutter True] @ map Exposure ls"
  have h: "history w' = history w @ map Did acts @ [Raised e]"
    using 6(1-4,6,7) ls by (auto simp: acts_def dest!: light_outcome load_sample_outcome count_outcome)
  have g': "globals w' = globals w"
    using 6(1-4,6,7) g by (auto dest!: light_outcome load_sample_outcome count_outcome)
  from len have "length ls \<le> nat n" by (simp add: range_py_def)
  then have "\<exists>d ls. length ls \<le> nat n \<and>
             (acts = [Shutter False, Sample s, Exposure d] \<or>
              acts = [Shutter False, Sample s, Exposure d, Shutter True] @ map Exposure ls)"
    unfolding acts_def by blast
  with g' h show ?case unfolding \<open>r = Inl e\<close> by (simp only: sum.case) blast
next
  case (7 x s' xa s'a xb s'b xc s'c xd s'd xe s'e)
  then show ?case
    by (auto dest!: light_outcome load_sample_outcome count_outcome take_lights_outcome
        simp: range_py_def)
qed

text \<open>The log of a run that returned, and what it says about the shutter.\<close>

lemma dark_light_collection_log:
  assumes "dark_light_collection bl s n w = (Inr us, w')"
  obtains d ls where "us = d # ls" "length ls = nat n"
    "new_events w w' =
       map Did ([Shutter False, Sample s, Exposure d, Shutter True] @ map Exposure ls @ [Shutter False])"
    "history w' = history w @ new_events w w'"
    "globals w' = globals w"
proof -
  from dark_light_collection_outcome[OF assms] obtain d ls where
    a: "us = d # ls" "length ls = nat n" and
    h: "history w' = history w @
      map Did ([Shutter False, Sample s, Exposure d, Shutter True] @ map Exposure ls @ [Shutter False])"
    and g: "globals w' = globals w"
    by auto
  from h have "new_events w w' =
      map Did ([Shutter False, Sample s, Exposure d, Shutter True] @ map Exposure ls @ [Shutter False])"
    by (rule new_events_append)
  with a h g that show thesis by metis
qed

lemma exposures_dark_light:
  "exposures (map Did ([Shutter False, Sample s, Exposure d, Shutter True] @ map Exposure ls @ [Shutter False]))
     = d # ls"
  by (simp add: exposures_append exposures_lights comp_def)

lemma exposure_shutters_dark_light:
  "exposure_shutters b (map Did ([Shutter False, Sample s, Exposure d, Shutter True] @ map Exposure ls @ [Shutter False]))
     = False # replicate (length ls) True"
  by (simp add: exposure_shutters_append exposure_shutters_lights comp_def)



subsection \<open>The plan returns when the framework does\<close>

lemma returns_take_lights:
  assumes "\<And>ds. returns (hw_count bl ds)"
  shows "returns (take_lights bl is uids)"
  by (induction "is" arbitrary: uids)
     (simp_all add: returns_ret returns_bnd returns_call assms count_def)

lemma returns_dark_light_collection:
  assumes "acquisition_never_raises bl"
  shows "returns (dark_light_collection bl s n)"
proof -
  from assms have l: "\<And>b. returns (light bl b)" and s: "\<And>n. returns (load_sample bl n)"
    and c: "\<And>ds. returns (count bl ds)" and t: "\<And>is uids. returns (take_lights bl is uids)"
    by (simp_all add: acquisition_never_raises_def light_def load_sample_def count_def
        returns_call returns_take_lights)
  show ?thesis
    unfolding dark_light_collection_def
    by (intro returns_bnd returns_ret l s c t)
qed

lemma dark_light_collection_completes:
  assumes "acquisition_never_raises bl"
  shows "\<exists>uids w'. dark_light_collection bl s n w = (Inr uids, w')"
  using returns_dark_light_collection[OF assms, of s n] unfolding returns_def by blast


section \<open>Running the plans on the simulated beamline\<close>

lemma sim_light:
  "light sim b w = (Inr (), w\<lparr>hardware := (hardware w)\<lparr>shutter_open := b\<rparr>,
                               history := history w @ [Did (Shutter b)]\<rparr>)"
  "light faulty b w = (Inr (), w\<lparr>hardware := (hardware w)\<lparr>shutter_open := b\<rparr>,
                                  history := history w @ [Did (Shutter b)]\<rparr>)"
  by (simp_all add: light_def sim_def faulty_def call_def)

lemma sim_load_sample:
  "load_sample sim n w = (Inr (), w\<lparr>hardware := (hardware w)\<lparr>sample_loaded := n\<rparr>,
                                     history := history w @ [Did (Sample n)]\<rparr>)"
  "load_sample faulty n w = (Inr (), w\<lparr>hardware := (hardware w)\<lparr>sample_loaded := n\<rparr>,
                                        history := history w @ [Did (Sample n)]\<rparr>)"
  by (simp_all add: load_sample_def sim_def faulty_def call_def)

lemma sim_count_run:
  "count sim ds w = (let u = ''run'' @ str (length (runs (hardware w))) in
     (Inr u, w\<lparr>hardware := (hardware w)\<lparr>runs := runs (hardware w) @
           [(u, [1, if shutter_open (hardware w) then 1 + sample_loaded (hardware w) else 1])]\<rparr>,
         history := history w @ [Did (Exposure u)]\<rparr>))"
  by (simp add: count_def sim_def call_def sim_count_def Let_def)

lemma faulty_count_run:
  "count faulty ds w = (if shutter_open (hardware w)
     then (Inl ''DetectorFault'', w\<lparr>history := history w @ [Raised ''DetectorFault'']\<rparr>)
     else count sim ds w)"
  by (simp add: count_def sim_def faulty_def call_def)

lemma sim_sim_sleep:
  "sim_sleep sim t w = (Inr (), w\<lparr>hardware := (hardware w)\<lparr>clock := clock (hardware w) + t\<rparr>,
                                 history := history w @ [Did (Sleep t)]\<rparr>)"
  by (simp add: sim_sleep_def sim_def call_def)

lemma sim_retrieve:
  "retrieve_im sim u w = (case map_of (runs (hardware w)) u of
       None \<Rightarrow> (Inl ''KeyError'', w\<lparr>history := history w @ [Raised ''KeyError'']\<rparr>)
     | Some im \<Rightarrow> (Inr im, w))"
  by (simp add: retrieve_im_def sim_def call_def sim_retrieve_im_def split: option.splits)

lemma sim_subtract:
  "image_sub sim a b w =
     (if length a = length b then (Inr (map (\<lambda>(x, y). x - y) (zip a b)), w)
      else (Inl ''ValueError'', w\<lparr>history := history w @ [Raised ''ValueError'']\<rparr>))"
  by (simp add: image_sub_def sim_def call_def call_pure_def sim_image_sub_def)

lemma sim_integrate: "simple_integration sim im w = (Inr (sum_list im), w)"
  by (simp add: simple_integration_def sim_def call_def call_pure_def)

lemma range_py_small:
  "range_py 2 = [0, 1]" "range_py 1 = [0]" "range_py 0 = []" "range_py (- 1) = []"
  by (simp_all add: range_py_def upt_rec)

lemma str_small:
  "str 0 = ''0''" "str (Suc 0) = ''1''" "str (Suc (Suc 0)) = ''2''"
  "str (Suc (Suc (Suc 0))) = ''3''"
  by (simp_all add: str.simps)

lemmas run_sim = bnd_apply ret_apply
  dark_light_collection_def dark_light_collection_default_def Let_def
  sim_light sim_load_sample sim_count_run faulty_count_run sim_sim_sleep sim_retrieve
  sim_subtract sim_integrate fresh_def range_py_small str_small

lemma sim_never_raises: "acquisition_never_raises sim"
  by (simp add: acquisition_never_raises_def returns_def sim_def sim_count_def Let_def)

lemma sim_two_lights:
  "dark_light_collection sim 1 2 fresh =
     (Inr [''run0'', ''run1'', ''run2''],
      \<lparr>hardware = \<lparr>shutter_open = False, sample_loaded = 1, clock = 0,
          runs = [(''run0'', [1, 1]), (''run1'', [1, 2]), (''run2'', [1, 2])]\<rparr>,
       history = [Did (Shutter False), Did (Sample 1), Did (Exposure ''run0''),
          Did (Shutter True), Did (Exposure ''run1''), Did (Exposure ''run2''),
          Did (Shutter False)],
       globals = \<lparr>new_int_list = PyList [], stdout = []\<rparr>\<rparr>)"
  by (simp add: run_sim)



section \<open>The claims about \<^verbatim>\<open>dark_light_collection\<close>\<close>

text \<open>
  C1. For every sample number and every \<open>num_lights \<ge> 1\<close>, the plan returns the
  identifiers of the runs it performed, in dark-then-light order. Whenever the plan
  returns, the returned list is exactly the list of identifiers of the exposures it made,
  in the order they were made; its first element comes from the one exposure made with
  the shutter closed (the dark) and the \<open>num_lights\<close> others from exposures made with the
  shutter open (the lights). This holds from any initial shutter position \<open>b\<close>. The plan
  does return whenever the framework calls do.
\<close>

theorem dark_light_collection_returns_uids_in_order:
  assumes "1 \<le> num_lights"
  shows "(acquisition_never_raises bl \<longrightarrow>
            (\<exists>uids w'. dark_light_collection bl sample_num num_lights w = (Inr uids, w'))) \<and>
         (\<forall>uids w'. dark_light_collection bl sample_num num_lights w = (Inr uids, w') \<longrightarrow>
            uids = exposures (new_events w w') \<and>
            (\<exists>dark lights. uids = dark # lights \<and> int (length lights) = num_lights \<and>
               exposure_shutters b (new_events w w') = False # replicate (length lights) True))"
proof (intro conjI impI allI)
  assume "acquisition_never_raises bl"
  then show "\<exists>uids w'. dark_light_collection bl sample_num num_lights w = (Inr uids, w')"
    by (rule dark_light_collection_completes)
next
  fix uids w'
  assume run: "dark_light_collection bl sample_num num_lights w = (Inr uids, w')"
  then obtain d ls where *: "uids = d # ls" "length ls = nat num_lights"
    "new_events w w' =
       map Did ([Shutter False, Sample sample_num, Exposure d, Shutter True] @ map Exposure ls @ [Shutter False])"
    by (rule dark_light_collection_log)
  show "uids = exposures (new_events w w')"
    unfolding *(3) exposures_dark_light by (rule *(1))
  have "int (length ls) = num_lights"
    using *(2) assms by simp
  moreover have "exposure_shutters b (new_events w w') = False # replicate (length ls) True"
    unfolding *(3) by (rule exposure_shutters_dark_light)
  ultimately show "\<exists>dark lights. uids = dark # lights \<and> int (length lights) = num_lights \<and>
      exposure_shutters b (new_events w w') = False # replicate (length lights) True"
    using *(1) by blast
qed

theorem dark_light_collection_returns_uids_in_order_witness:
  "(1::int) \<le> 2 \<and> acquisition_never_raises sim \<and>
   fst (dark_light_collection sim 1 2 fresh) = Inr [''run0'', ''run1'', ''run2''] \<and>
   exposures (new_events fresh (snd (dark_light_collection sim 1 2 fresh)))
     = [''run0'', ''run1'', ''run2''] \<and>
   exposure_shutters True (new_events fresh (snd (dark_light_collection sim 1 2 fresh)))
     = [False, True, True]"
proof -
  have n: "(1::int) \<le> 2" by simp
  from dark_light_collection_returns_uids_in_order[OF n, of sim 1 fresh True]
    sim_never_raises sim_two_lights
  show ?thesis by auto
qed






section \<open>Properties of \<^verbatim>\<open>process_data\<close>\<close>

subsection \<open>Exceptions pass through sequencing\<close>

lemma lets_through_ret: "lets_through (ret x)"
  by (auto simp: lets_through_def ret_def intro: exI[of _ "[]"])

lemma lets_through_call:
  fixes f :: "('r, 'hw, 'e) prog" and evs :: "'r \<Rightarrow> 'a list"
  shows "lets_through (call evs f :: ('r, ('hw, 'a, 'e, 'g) world, 'e) prog)"
proof -
  have "\<exists>acts. history w' =
      history w @ map Did acts @ (case r of Inl e \<Rightarrow> [Raised e] | Inr _ \<Rightarrow> [])"
    if "call evs f w = (r, w')" for w w' :: "('hw, 'a, 'e, 'g) world" and r
    using that
  proof (cases rule: callE)
    case (raise e h')
    then show ?thesis by (auto intro: exI[of _ "[]"])
  next
    case (return x h')
    then show ?thesis by (auto intro: exI[of _ "evs x"])
  qed
  then show ?thesis unfolding lets_through_def by blast
qed

lemma lets_through_bnd:
  assumes m: "lets_through m"
    and f: "\<And>w x w'. m w = (Inr x, w') \<Longrightarrow> lets_through (f x)"
  shows "lets_through (bnd m f)"
  unfolding lets_through_def
proof (intro allI impI)
  fix w r w''
  assume "bnd m f w = (r, w'')"
  then show "\<exists>acts. history w'' =
      history w @ map Did acts @ (case r of Inl e \<Rightarrow> [Raised e] | Inr _ \<Rightarrow> [])"
  proof (cases rule: bndE)
    case (raise e)
    with m show ?thesis unfolding lets_through_def by fastforce
  next
    case (return x w')
    from m return(1) obtain a where a: "history w' = history w @ map Did a"
      unfolding lets_through_def by fastforce
    from f[OF return(1)] return(2) obtain b where
      "history w'' = history w' @ map Did b @ (case r of Inl e \<Rightarrow> [Raised e] | Inr _ \<Rightarrow> [])"
      unfolding lets_through_def by blast
    with a have "history w'' =
        history w @ map Did (a @ b) @ (case r of Inl e \<Rightarrow> [Raised e] | Inr _ \<Rightarrow> [])"
      by simp
    then show ?thesis by blast
  qed
qed

lemma lets_through_for_each:
  assumes "\<And>x. lets_through (f x)"
  shows "lets_through (for_each f xs)"
  by (induction xs) (auto intro!: lets_through_bnd lets_through_ret assms)

lemma lets_through_dark_light_collection: "lets_through (dark_light_collection bl s n)"
  unfolding lets_through_def
proof (intro allI impI)
  fix w r w'
  assume "dark_light_collection bl s n w = (r, w')"
  note out = dark_light_collection_outcome[OF this]
  show "\<exists>acts. history w' =
      history w @ map Did acts @ (case r of Inl e \<Rightarrow> [Raised e] | Inr _ \<Rightarrow> [])"
  proof (cases r)
    case (Inl e)
    with out obtain acts where "history w' = history w @ map Did acts @ [Raised e]"
      by auto
    with Inl show ?thesis by auto
  next
    case (Inr us)
    with out obtain d ls where "history w' = history w @
        map Did ([Shutter False, Sample s, Exposure d, Shutter True] @ map Exposure ls @ [Shutter False])"
      by auto
    then have "history w' = history w @
        map Did ([Shutter False, Sample s, Exposure d, Shutter True] @ map Exposure ls @ [Shutter False]) @ []"
      by simp
    with Inr show ?thesis by (simp only: sum.case) blast
  qed
qed

lemma lets_through_utils:
  "lets_through (retrieve_im bl u)"
  "lets_through (image_sub bl a b)"
  "lets_through (simple_integration bl im)"
  by (simp_all add: retrieve_im_def image_sub_def simple_integration_def call_pure_def
      lets_through_call)

lemma lets_through_process_data:
  "lets_through (process_data bl (d # ls) False False)"
  "lets_through (process_data bl (d # ls) True False)"
  "lets_through (process_data bl (d # ls) False True)"
  unfolding process_data.simps
  by (intro lets_through_bnd lets_through_for_each lets_through_utils)+

subsection \<open>The notebook's globals\<close>

lemma keeps_globals_ret: "keeps_globals (ret x)"
  by (simp add: keeps_globals_def ret_def)

lemma keeps_globals_call: "keeps_globals (call evs f)"
  by (auto simp: keeps_globals_def elim!: callE)

lemma keeps_globals_bnd:
  assumes "keeps_globals m" and "\<And>x. keeps_globals (f x)"
  shows "keeps_globals (bnd m f)"
  using assms unfolding keeps_globals_def by (fastforce elim!: bndE)

lemma keeps_globals_for_each:
  assumes "\<And>x. keeps_globals (f x)"
  shows "keeps_globals (for_each f xs)"
  by (induction xs) (auto intro!: keeps_globals_bnd keeps_globals_ret assms)

lemma keeps_globals_utils:
  "keeps_globals (retrieve_im bl u)"
  "keeps_globals (image_sub bl a b)"
  "keeps_globals (simple_integration bl im)"
  by (simp_all add: retrieve_im_def image_sub_def simple_integration_def call_pure_def
      keeps_globals_call)

lemma keeps_globals_process_data:
  "keeps_globals (process_data bl (d # ls) False False)"
  "keeps_globals (process_data bl (d # ls) True False)"
  "keeps_globals (process_data bl (d # ls) False True)"
  unfolding process_data.simps
  by (intro keeps_globals_bnd keeps_globals_for_each keeps_globals_utils)+

lemma keeps_globals_process_data_options:
  assumes "\<not> (return_light \<and> return_dark)"
  shows "keeps_globals (process_data bl (d # ls) return_light return_dark)"
proof (cases return_light)
  case True
  with assms have "return_light = True" "return_dark = False" by simp_all
  then show ?thesis by (simp only: keeps_globals_process_data)
next
  case False
  then have l: "return_light = False" by simp
  show ?thesis
  proof (cases return_dark)
    case True
    then have "return_dark = True" by simp
    with l show ?thesis by (simp only: keeps_globals_process_data)
  next
    case False
    then have "return_dark = False" by simp
    with l show ?thesis by (simp only: keeps_globals_process_data)
  qed
qed

lemma keeps_globals_dark_light_collection: "keeps_globals (dark_light_collection bl s n)"
  unfolding keeps_globals_def using dark_light_collection_outcome by blast

lemma keeps_globalsD: "keeps_globals p \<Longrightarrow> p w = (r, w') \<Longrightarrow> globals w' = globals w"
  unfolding keeps_globals_def by blast

subsection \<open>What \<^verbatim>\<open>process_data\<close> computes\<close>

lemma retrieve_im_held:
  assumes "hw_retrieve_im bl u (hardware w) = (Inr im, hardware w)"
  shows "retrieve_im bl u w = (Inr im, w)"
  using assms by (simp add: retrieve_im_def call_def)

lemma for_each_retrieve_im:
  assumes "store_holds bl (hardware w) us img_of"
  shows "for_each (retrieve_im bl) us w = (Inr (map img_of us), w)"
  using assms
  by (induction us) (simp_all add: store_holds_def retrieve_im_held bnd_apply ret_apply)

lemma for_each_image_sub:
  assumes "subtraction_gives bl ims dark diff"
  shows "for_each (\<lambda>l. image_sub bl l dark) ims w = (Inr (map (\<lambda>l. diff l dark) ims), w)"
  using assms
  by (induction ims)
     (simp_all add: subtraction_gives_def image_sub_def call_pure_def call_def bnd_apply ret_apply)

lemma for_each_simple_integration:
  assumes "integration_gives bl integrate"
  shows "for_each (simple_integration bl) ims w = (Inr (map integrate ims), w)"
  using assms
  by (induction ims)
     (simp_all add: integration_gives_def simple_integration_def call_pure_def call_def
        bnd_apply ret_apply)

text \<open>
  C2. For a list of run identifiers whose first element names the dark run and whose
  other elements name light runs, \<^verbatim>\<open>process_data\<close> retrieves the images, subtracts the
  dark image from each light image, integrates each difference and returns the resulting
  curves, in the order of the light runs. With \<^verbatim>\<open>return_dark=True\<close> it returns the reduced
  dark image only, with \<^verbatim>\<open>return_light=True\<close> the reduced light images only. The
  hypotheses say that the store holds an image for each identifier and that subtraction
  and integration succeed on them. The options are the arguments \<open>return_light\<close>,
  \<open>return_dark\<close>, in this order.
\<close>

theorem process_data_reduces:
  assumes "store_holds bl (hardware w) (dark_uid # light_uids) img_of"
    and "subtraction_gives bl (map img_of light_uids) (img_of dark_uid) diff"
    and "integration_gives bl integrate"
  shows "process_data bl (dark_uid # light_uids) False False w =
           (Inr (map (\<lambda>l. integrate (diff (img_of l) (img_of dark_uid))) light_uids), w) \<and>
         process_data bl (dark_uid # light_uids) False True w =
           (Inr [integrate (img_of dark_uid)], w) \<and>
         process_data bl (dark_uid # light_uids) True False w =
           (Inr (map (\<lambda>l. integrate (img_of l)) light_uids), w)"
proof -
  from assms(1) have d: "retrieve_im bl dark_uid w = (Inr (img_of dark_uid), w)"
    by (simp add: store_holds_def retrieve_im_held)
  from assms(1) have "store_holds bl (hardware w) light_uids img_of"
    by (simp add: store_holds_def)
  then have ls: "for_each (retrieve_im bl) light_uids w = (Inr (map img_of light_uids), w)"
    by (rule for_each_retrieve_im)
  note sub = for_each_image_sub[OF assms(2), of w]
  note int = for_each_simple_integration[OF assms(3)]
  have "process_data bl (dark_uid # light_uids) False False w =
      (Inr (map (\<lambda>l. integrate (diff (img_of l) (img_of dark_uid))) light_uids), w)"
    by (simp add: bnd_apply d ls sub int comp_def)
  moreover have "process_data bl (dark_uid # light_uids) False True w =
      (Inr [integrate (img_of dark_uid)], w)"
    unfolding process_data.simps
    by (simp only: bnd_apply d ls int prod.case sum.case) simp
  moreover have "process_data bl (dark_uid # light_uids) True False w =
      (Inr (map (\<lambda>l. integrate (img_of l)) light_uids), w)"
    by (simp add: bnd_apply d ls int comp_def)
  ultimately show ?thesis by blast
qed

theorem process_data_reduces_witness:
  "store_holds sim (hardware measured) [''run0'', ''run1'']
     (\<lambda>u. if u = ''run0'' then [1, 1] else [1, 6]) \<and>
   subtraction_gives sim [[1, 6]] [1, 1] (\<lambda>a b. map (\<lambda>(x, y). x - y) (zip a b)) \<and>
   integration_gives sim sum_list \<and>
   process_data sim [''run0'', ''run1''] False False measured = (Inr [5], measured) \<and>
   process_data sim [''run0'', ''run1''] False True measured = (Inr [2], measured) \<and>
   process_data sim [''run0'', ''run1''] True False measured = (Inr [7], measured)"
proof -
  have a: "store_holds sim (hardware measured) (''run0'' # [''run1''])
      (\<lambda>u. if u = ''run0'' then [1, 1] else [1, 6])"
    by (simp add: store_holds_def sim_def sim_retrieve_im_def measured_def)
  have b: "subtraction_gives sim
      (map (\<lambda>u. if u = ''run0'' then [1, 1] else [1, 6]) [''run1''])
      ((\<lambda>u. if u = ''run0'' then [1, 1] else [1, 6]) ''run0'')
      (\<lambda>a b. map (\<lambda>(x, y). x - y) (zip a b))"
    by (simp add: subtraction_gives_def sim_def sim_image_sub_def)
  have c: "integration_gives sim sum_list"
    by (simp add: integration_gives_def sim_def)
  from process_data_reduces[OF a b c] a b c show ?thesis by simp
qed


section \<open>Properties of \<^verbatim>\<open>custom_plan\<close>\<close>

subsection \<open>Generators\<close>

lemma pep479_simps [simp]:
  "pep479 StopIteration = RuntimeError ''generator raised StopIteration''"
  "pep479 (RuntimeError m) = RuntimeError m"
  "pep479 (AttributeError m) = AttributeError m"
  "pep479 (Other x) = Other x"
  by (simp_all add: pep479_def)

lemma pep479_other: "e \<noteq> StopIteration \<Longrightarrow> pep479 e = e"
  by (cases e) simp_all

lemma pep479_idem [simp]: "pep479 (pep479 e) = pep479 e"
  by (cases e) simp_all

lemma generator_apply:
  "generator body s = (case body s of (Inl e, s') \<Rightarrow> (Inl (pep479 e), s') | (Inr x, s') \<Rightarrow> (Inr x, s'))"
  by (simp add: generator_def)

lemma generatorE:
  assumes "generator body s = (r, s')"
  obtains (raise) e where "body s = (Inl e, s')" "r = Inl (pep479 e)"
    | (return) x where "body s = (Inr x, s')" "r = Inr x"
  using assms by (auto simp: generator_def split: prod.splits sum.splits)

lemma generator_returns: "generator body s = (Inr x, s') \<longleftrightarrow> body s = (Inr x, s')"
  by (auto simp: generator_def split: prod.splits sum.splits)


subsection \<open>What the statements of \<^verbatim>\<open>custom_plan\<close> do to the log\<close>

lemma accounted_of_lets_through:
  assumes "lets_through p" and "keeps_globals p"
  shows "accounted p"
  unfolding accounted_def
proof (intro allI impI conjI)
  fix w r w'
  assume run: "p w = (r, w')"
  with assms(2) have g: "globals w' = globals w"
    by (rule keeps_globalsD)
  then show "is_array (new_int_list (globals w')) = is_array (new_int_list (globals w))"
    by simp
  from assms(1) run obtain acts where
    h: "history w' = history w @ map Did acts @ (case r of Inl e \<Rightarrow> [Raised e] | Inr _ \<Rightarrow> [])"
    unfolding lets_through_def by blast
  show "\<exists>acts. case r of
           Inr _ \<Rightarrow> history w' = history w @ map Did acts
         | Inl e' \<Rightarrow>
             (\<exists>e. history w' = history w @ map Did acts @ [Raised e] \<and> pep479 e' = pep479 e) \<or>
             (history w' = history w @ map Did acts \<and> e' = AttributeError ''append'' \<and>
              is_array (new_int_list (globals w)))"
    using h by (cases r) (auto intro!: exI[of _ acts])
qed

lemma accounted_ret: "accounted (ret x)"
  by (auto simp: accounted_def ret_def intro: exI[of _ "[]"])

lemma accounted_print: "accounted (print s)"
  by (auto simp: accounted_def print_def intro: exI[of _ "[]"])

lemma accounted_new_int_list_append: "accounted (new_int_list_append x)"
  by (auto simp: accounted_def new_int_list_append_def intro: exI[of _ "[]"]
      split: list_or_array.splits)

lemma accounted_new_int_list_append_lookup: "accounted new_int_list_append_lookup"
  by (auto simp: accounted_def new_int_list_append_lookup_def intro: exI[of _ "[]"]
      split: list_or_array.splits)

lemma accounted_generator:
  assumes "accounted p"
  shows "accounted (generator p)"
  unfolding accounted_def
proof (intro allI impI)
  fix w r w'
  assume "generator p w = (r, w')"
  then show "is_array (new_int_list (globals w')) = is_array (new_int_list (globals w)) \<and>
        (\<exists>acts. case r of
           Inr _ \<Rightarrow> history w' = history w @ map Did acts
         | Inl e' \<Rightarrow>
             (\<exists>e. history w' = history w @ map Did acts @ [Raised e] \<and> pep479 e' = pep479 e) \<or>
             (history w' = history w @ map Did acts \<and> e' = AttributeError ''append'' \<and>
              is_array (new_int_list (globals w))))"
  proof (cases rule: generatorE)
    case (raise e)
    with assms show ?thesis unfolding accounted_def by fastforce
  next
    case (return x)
    with assms show ?thesis unfolding accounted_def by fastforce
  qed
qed

lemma accounted_bnd:
  assumes m: "accounted m"
    and f: "\<And>w x w'. m w = (Inr x, w') \<Longrightarrow> accounted (f x)"
  shows "accounted (bnd m f)"
  unfolding accounted_def
proof (intro allI impI)
  fix w r w''
  assume "bnd m f w = (r, w'')"
  then show "is_array (new_int_list (globals w'')) = is_array (new_int_list (globals w)) \<and>
        (\<exists>acts. case r of
           Inr _ \<Rightarrow> history w'' = history w @ map Did acts
         | Inl e' \<Rightarrow>
             (\<exists>e. history w'' = history w @ map Did acts @ [Raised e] \<and> pep479 e' = pep479 e) \<or>
             (history w'' = history w @ map Did acts \<and> e' = AttributeError ''append'' \<and>
              is_array (new_int_list (globals w))))"
  proof (cases rule: bndE)
    case (raise e)
    with m show ?thesis unfolding accounted_def by fastforce
  next
    case (return x w')
    from m return(1) obtain a where a: "history w' = history w @ map Did a"
      and k: "is_array (new_int_list (globals w')) = is_array (new_int_list (globals w))"
      unfolding accounted_def by fastforce
    from f[OF return(1)] return(2) obtain b where
      k': "is_array (new_int_list (globals w'')) = is_array (new_int_list (globals w'))" and
      b: "case r of
           Inr _ \<Rightarrow> history w'' = history w' @ map Did b
         | Inl e' \<Rightarrow>
             (\<exists>e. history w'' = history w' @ map Did b @ [Raised e] \<and> pep479 e' = pep479 e) \<or>
             (history w'' = history w' @ map Did b \<and> e' = AttributeError ''append'' \<and>
              is_array (new_int_list (globals w')))"
      unfolding accounted_def by blast
    have "case r of
           Inr _ \<Rightarrow> history w'' = history w @ map Did (a @ b)
         | Inl e' \<Rightarrow>
             (\<exists>e. history w'' = history w @ map Did (a @ b) @ [Raised e] \<and> pep479 e' = pep479 e) \<or>
             (history w'' = history w @ map Did (a @ b) \<and> e' = AttributeError ''append'' \<and>
              is_array (new_int_list (globals w)))"
      using a b k by (cases r) auto
    with k k' show ?thesis by (simp only:) blast
  qed
qed

lemma accounted_custom_loop:
  fixes bl :: "('hw, 'img, 'c, 'x py_exc) beamline"
  shows "accounted (custom_loop bl s t is)"
proof (induction "is")
  case Nil
  show ?case by (simp add: accounted_ret)
next
  case (Cons i "is")
  show ?case
    unfolding custom_loop.simps
  proof (intro accounted_bnd accounted_print accounted_new_int_list_append_lookup)
    show "accounted (generator (dark_light_collection_default bl s))"
      by (simp add: dark_light_collection_default_def accounted_generator
          accounted_of_lets_through lets_through_dark_light_collection
          keeps_globals_dark_light_collection)
  next
    fix w this_pair w'
    assume "generator (dark_light_collection_default bl s) w = (Inr this_pair, w')"
    then have "dark_light_collection bl s 1 w = (Inr this_pair, w')"
      by (simp add: generator_returns dark_light_collection_default_def)
    then obtain d ls where "this_pair = d # ls"
      by (rule dark_light_collection_log)
    then show "accounted (process_data bl this_pair False False)"
      by (simp only: accounted_of_lets_through lets_through_process_data
          keeps_globals_process_data)
  next
    show "accounted (new_int_list_append reduced :: (unit, ('hw, 'c, 'x py_exc) cell, 'x py_exc) prog)"
      for reduced :: "'c list"
      by (rule accounted_new_int_list_append)
  next
    show "accounted (sim_sleep bl t)"
      by (simp add: sim_sleep_def accounted_of_lets_through lets_through_call keeps_globals_call)
  next
    show "accounted (custom_loop bl s t is)" by (rule Cons.IH)
  qed
qed

text \<open>
  What this says about a whole run: a framework exception in the log is its last entry and
  the run ends with it, up to the replacement of \<^verbatim>\<open>StopIteration\<close>; and a run that ends
  with an exception got it from a framework call or from \<^verbatim>\<open>append\<close> on an array.
\<close>

lemma accounted_generatorD:
  assumes "accounted p" and "generator p w = (r, w')"
  shows "history w' = history w @ new_events w w' \<and>
     (\<forall>e. Raised e \<in> set (new_events w w') \<longrightarrow>
        last (new_events w w') = Raised e \<and> r = Inl (pep479 e)) \<and>
     (\<forall>e'. r = Inl e' \<longrightarrow>
        (\<exists>e. Raised e \<in> set (new_events w w') \<and> e' = pep479 e) \<or>
        (e' = AttributeError ''append'' \<and> is_array (new_int_list (globals w))))"
proof -
  from accounted_generator[OF assms(1)] assms(2) obtain acts where
    c: "case r of
           Inr _ \<Rightarrow> history w' = history w @ map Did acts
         | Inl e' \<Rightarrow>
             (\<exists>e. history w' = history w @ map Did acts @ [Raised e] \<and> pep479 e' = pep479 e) \<or>
             (history w' = history w @ map Did acts \<and> e' = AttributeError ''append'' \<and>
              is_array (new_int_list (globals w)))"
    unfolding accounted_def by blast
  from assms(2) have conv: "\<And>e'. r = Inl e' \<Longrightarrow> pep479 e' = e'"
    by (auto elim!: generatorE)
  show ?thesis
  proof (cases r)
    case (Inr x)
    with c have h: "history w' = history w @ map Did acts" by simp
    then have "new_events w w' = map Did acts" by (rule new_events_append)
    with h Inr show ?thesis by auto
  next
    case (Inl e')
    with c consider
      (framework) e where "history w' = history w @ map Did acts @ [Raised e]" "pep479 e' = pep479 e"
      | (append) "history w' = history w @ map Did acts" "e' = AttributeError ''append''"
        "is_array (new_int_list (globals w))"
      by auto
    then show ?thesis
    proof cases
      case framework
      from framework(1) have n: "new_events w w' = map Did acts @ [Raised e]"
        by (rule new_events_append)
      from framework(2) conv[OF Inl] have "e' = pep479 e" by simp
      with n framework(1) Inl show ?thesis by auto
    next
      case append
      from append(1) have n: "new_events w w' = map Did acts"
        by (rule new_events_append)
      with append Inl show ?thesis by auto
    qed
  qed
qed

subsection \<open>Running \<^verbatim>\<open>custom_plan\<close> on the simulated beamline\<close>

lemma python_light:
  "light (in_python sim) b w = (Inr (), w\<lparr>hardware := (hardware w)\<lparr>shutter_open := b\<rparr>,
                                         history := history w @ [Did (Shutter b)]\<rparr>)"
  "light stopping b w = (Inr (), w\<lparr>hardware := (hardware w)\<lparr>shutter_open := b\<rparr>,
                                    history := history w @ [Did (Shutter b)]\<rparr>)"
  "light (in_python faulty) b w = (Inr (), w\<lparr>hardware := (hardware w)\<lparr>shutter_open := b\<rparr>,
                                            history := history w @ [Did (Shutter b)]\<rparr>)"
  by (simp_all add: light_def in_python_def stopping_def relabel_def sim_def faulty_def call_def)

lemma python_load_sample:
  "load_sample (in_python sim) n w = (Inr (), w\<lparr>hardware := (hardware w)\<lparr>sample_loaded := n\<rparr>,
                                               history := history w @ [Did (Sample n)]\<rparr>)"
  "load_sample stopping n w = (Inr (), w\<lparr>hardware := (hardware w)\<lparr>sample_loaded := n\<rparr>,
                                          history := history w @ [Did (Sample n)]\<rparr>)"
  "load_sample (in_python faulty) n w = (Inr (), w\<lparr>hardware := (hardware w)\<lparr>sample_loaded := n\<rparr>,
                                                  history := history w @ [Did (Sample n)]\<rparr>)"
  by (simp_all add: load_sample_def in_python_def stopping_def relabel_def sim_def faulty_def
      call_def)

lemma python_count:
  "count (in_python sim) ds w = (let u = ''run'' @ str (length (runs (hardware w))) in
     (Inr u, w\<lparr>hardware := (hardware w)\<lparr>runs := runs (hardware w) @
           [(u, [1, if shutter_open (hardware w) then 1 + sample_loaded (hardware w) else 1])]\<rparr>,
         history := history w @ [Did (Exposure u)]\<rparr>))"
  "count stopping ds w = count (in_python sim) ds w"
  "count (in_python faulty) ds w = (if shutter_open (hardware w)
     then (Inl (Other ''DetectorFault''), w\<lparr>history := history w @ [Raised (Other ''DetectorFault'')]\<rparr>)
     else count (in_python sim) ds w)"
  by (simp_all add: count_def in_python_def stopping_def relabel_def sim_def faulty_def call_def
      sim_count_def Let_def)

lemma python_sim_sleep:
  "sim_sleep (in_python sim) t w =
     (Inr (), w\<lparr>hardware := (hardware w)\<lparr>clock := clock (hardware w) + t\<rparr>,
                 history := history w @ [Did (Sleep t)]\<rparr>)"
  "sim_sleep stopping t w = sim_sleep (in_python sim) t w"
  by (simp_all add: sim_sleep_def in_python_def stopping_def relabel_def sim_def call_def)

lemma python_retrieve:
  "retrieve_im (in_python sim) u w = (case map_of (runs (hardware w)) u of
       None \<Rightarrow> (Inl (Other ''KeyError''), w\<lparr>history := history w @ [Raised (Other ''KeyError'')]\<rparr>)
     | Some im \<Rightarrow> (Inr im, w))"
  "retrieve_im stopping u w = retrieve_im (in_python sim) u w"
  by (simp_all add: retrieve_im_def in_python_def stopping_def relabel_def sim_def call_def
      sim_retrieve_im_def split: option.splits)

lemma python_subtract:
  "image_sub (in_python sim) a b w =
     (if length a = length b then (Inr (map (\<lambda>(x, y). x - y) (zip a b)), w)
      else (Inl (Other ''ValueError''), w\<lparr>history := history w @ [Raised (Other ''ValueError'')]\<rparr>))"
  "image_sub stopping a b w = image_sub (in_python sim) a b w"
  by (simp_all add: image_sub_def in_python_def stopping_def sim_def call_def call_pure_def
      sim_image_sub_def)

lemma python_integrate:
  "simple_integration (in_python sim) im w = (Inr (sum_list im), w)"
  "simple_integration stopping im w =
     (Inl StopIteration, w\<lparr>history := history w @ [Raised StopIteration]\<rparr>)"
  by (simp_all add: simple_integration_def in_python_def stopping_def sim_def call_def
      call_pure_def)

lemmas run_python = bnd_apply ret_apply generator_apply print_def new_int_list_append_def new_int_list_append_lookup_def
  dark_light_collection_def dark_light_collection_default_def custom_plan_def Let_def
  python_light python_load_sample python_count python_sim_sleep python_retrieve
  python_subtract python_integrate fresh_def rebound_def range_py_small str_small




lemma faulty_custom_plan:
  "custom_plan (in_python faulty) 1 60 1 fresh =
     (Inl (Other ''DetectorFault''),
      \<lparr>hardware = \<lparr>shutter_open = True, sample_loaded = 1, clock = 0,
          runs = [(''run0'', [1, 1])]\<rparr>,
       history = [Did (Shutter False), Did (Sample 1), Did (Exposure ''run0''),
          Did (Shutter True), Raised (Other ''DetectorFault'')],
       globals = \<lparr>new_int_list = PyList [], stdout = [''on loop 0'']\<rparr>\<rparr>)"
  by (simp add: run_python)

lemma faulty_generator:
  "generator (dark_light_collection (in_python faulty) 1 2) fresh =
     (Inl (Other ''DetectorFault''),
      \<lparr>hardware = \<lparr>shutter_open = True, sample_loaded = 1, clock = 0,
          runs = [(''run0'', [1, 1])]\<rparr>,
       history = [Did (Shutter False), Did (Sample 1), Did (Exposure ''run0''),
          Did (Shutter True), Raised (Other ''DetectorFault'')],
       globals = \<lparr>new_int_list = PyList [], stdout = []\<rparr>\<rparr>)"
  by (simp add: run_python)

lemma stopping_custom_plan:
  "custom_plan stopping 1 60 1 fresh =
     (Inl (RuntimeError ''generator raised StopIteration''),
      \<lparr>hardware = \<lparr>shutter_open = False, sample_loaded = 1, clock = 0,
          runs = [(''run0'', [1, 1]), (''run1'', [1, 2])]\<rparr>,
       history = [Did (Shutter False), Did (Sample 1), Did (Exposure ''run0''),
          Did (Shutter True), Did (Exposure ''run1''), Did (Shutter False),
          Raised StopIteration],
       globals = \<lparr>new_int_list = PyList [], stdout = [''on loop 0'']\<rparr>\<rparr>)"
  by (simp add: run_python)

lemma rebound_custom_plan:
  "custom_plan (in_python sim) 1 60 1 rebound =
     (Inl (AttributeError ''append''),
      \<lparr>hardware = \<lparr>shutter_open = False, sample_loaded = 1, clock = 0,
          runs = [(''run0'', [1, 1]), (''run1'', [1, 2])]\<rparr>,
       history = [Did (Shutter False), Did (Sample 1), Did (Exposure ''run0''),
          Did (Shutter True), Did (Exposure ''run1''), Did (Shutter False)],
       globals = \<lparr>new_int_list = NdArray [[1]], stdout = [''on loop 0'']\<rparr>\<rparr>)"
  by (simp add: run_python)

subsection \<open>Programs that touch the framework's state only\<close>











subsection \<open>Invariants of the framework\<close>















subsection \<open>Reading the store logs nothing\<close>








subsection \<open>One turn of the loop of \<^verbatim>\<open>custom_plan\<close>\<close>









lemma lets_through_generatorD:
  assumes "lets_through p" and "generator p w = (r, w')"
  shows "history w' = history w @ new_events w w' \<and>
     (\<forall>e. Raised e \<in> set (new_events w w') \<longrightarrow>
        last (new_events w w') = Raised e \<and> r = Inl (pep479 e)) \<and>
     (\<forall>e'. r = Inl e' \<longrightarrow> (\<exists>e. Raised e \<in> set (new_events w w') \<and> e' = pep479 e))"
  using assms(2)
proof (cases rule: generatorE)
  case (raise e)
  with assms(1) obtain acts where h: "history w' = history w @ map Did acts @ [Raised e]"
    unfolding lets_through_def by fastforce
  then have "new_events w w' = map Did acts @ [Raised e]" by (rule new_events_append)
  with h raise(2) show ?thesis by auto
next
  case (return x)
  with assms(1) obtain acts where h: "history w' = history w @ map Did acts"
    unfolding lets_through_def by fastforce
  then have "new_events w w' = map Did acts" by (rule new_events_append)
  with h return(2) show ?thesis by auto
qed



section \<open>The claims about state and errors\<close>




text \<open>
  C5, as stated: an exception raised by a framework call is never transformed and reaches
  the caller unchanged. This fails for \<^verbatim>\<open>custom_plan\<close> and the exception \<^verbatim>\<open>StopIteration\<close>:
  when the integration routine that \<^verbatim>\<open>process_data\<close> calls raises it, the caller of the plan
  gets \<^verbatim>\<open>RuntimeError("generator raised StopIteration")\<close> in its place.
\<close>

theorem custom_plan_replaces_stop_iteration:
  "Raised StopIteration \<in> set (new_events fresh (snd (custom_plan stopping 1 60 1 fresh))) \<and>
   fst (custom_plan stopping 1 60 1 fresh) = Inl (RuntimeError ''generator raised StopIteration'') \<and>
   fst (custom_plan stopping 1 60 1 fresh) \<noteq> Inl StopIteration"
  by (simp add: stopping_custom_plan new_events_def) (simp add: fresh_def)

text \<open>
  C5, amended. The helpers contain no error handling. For integer arguments, on every run
  of \<^verbatim>\<open>dark_light_collection\<close> and of \<^verbatim>\<open>custom_plan\<close>:

  \<^item> A framework call that raises ends the run: the raise is the last entry of the run's
    log, and the caller gets the exception \<open>e\<close> that was raised, unchanged, unless \<open>e\<close> is
    \<^verbatim>\<open>StopIteration\<close>, which Python replaces by
    \<^verbatim>\<open>RuntimeError("generator raised StopIteration")\<close> when it leaves the body of a generator
    (both helpers are generators).
  \<^item> No error of the helpers' own making is ever returned. A run of
    \<^verbatim>\<open>dark_light_collection\<close> that ends with an exception got it, in the way just said, from
    a framework call it made. So did a run of \<^verbatim>\<open>custom_plan\<close>, with one exception: Python's
    \<^verbatim>\<open>AttributeError\<close> for \<^verbatim>\<open>new_int_list.append\<close>, which arises only when the name
    \<^verbatim>\<open>new_int_list\<close> is bound to an array (as it is once the notebook's cell has run) and not
    to a list.
\<close>

theorem helpers_let_exceptions_through:
  fixes pl :: "('hw, 'img, 'c, 'x py_exc) beamline" and w wc :: "('hw, 'c, 'x py_exc) cell"
  shows
    "(\<forall>r w'. generator (dark_light_collection pl sample_num num_lights) w = (r, w') \<longrightarrow>
        history w' = history w @ new_events w w' \<and>
        (\<forall>e. Raised e \<in> set (new_events w w') \<longrightarrow>
           last (new_events w w') = Raised e \<and> r = Inl (pep479 e)) \<and>
        (\<forall>e'. r = Inl e' \<longrightarrow> (\<exists>e. Raised e \<in> set (new_events w w') \<and> e' = pep479 e))) \<and>
     (\<forall>r w'. custom_plan pl sample_num sleep_time num_loops wc = (r, w') \<longrightarrow>
        history w' = history wc @ new_events wc w' \<and>
        (\<forall>e. Raised e \<in> set (new_events wc w') \<longrightarrow>
           last (new_events wc w') = Raised e \<and> r = Inl (pep479 e)) \<and>
        (\<forall>e'. r = Inl e' \<longrightarrow>
           (\<exists>e. Raised e \<in> set (new_events wc w') \<and> e' = pep479 e) \<or>
           (e' = AttributeError ''append'' \<and> is_array (new_int_list (globals wc))))) \<and>
     (\<forall>e :: 'x py_exc. e \<noteq> StopIteration \<longrightarrow> pep479 e = e) \<and>
     pep479 (StopIteration :: 'x py_exc) = RuntimeError ''generator raised StopIteration''"
proof (intro conjI)
  show "\<forall>r w'. generator (dark_light_collection pl sample_num num_lights) w = (r, w') \<longrightarrow>
        history w' = history w @ new_events w w' \<and>
        (\<forall>e. Raised e \<in> set (new_events w w') \<longrightarrow>
           last (new_events w w') = Raised e \<and> r = Inl (pep479 e)) \<and>
        (\<forall>e'. r = Inl e' \<longrightarrow> (\<exists>e. Raised e \<in> set (new_events w w') \<and> e' = pep479 e))"
    by (intro allI impI) (rule lets_through_generatorD[OF lets_through_dark_light_collection])
  show "\<forall>r w'. custom_plan pl sample_num sleep_time num_loops wc = (r, w') \<longrightarrow>
        history w' = history wc @ new_events wc w' \<and>
        (\<forall>e. Raised e \<in> set (new_events wc w') \<longrightarrow>
           last (new_events wc w') = Raised e \<and> r = Inl (pep479 e)) \<and>
        (\<forall>e'. r = Inl e' \<longrightarrow>
           (\<exists>e. Raised e \<in> set (new_events wc w') \<and> e' = pep479 e) \<or>
           (e' = AttributeError ''append'' \<and> is_array (new_int_list (globals wc))))"
    unfolding custom_plan_def
    by (intro allI impI) (rule accounted_generatorD[OF accounted_custom_loop])
  show "\<forall>e :: 'x py_exc. e \<noteq> StopIteration \<longrightarrow> pep479 e = e"
    by (simp add: pep479_other)
  show "pep479 (StopIteration :: 'x py_exc) = RuntimeError ''generator raised StopIteration''"
    by simp
qed

theorem helpers_let_exceptions_through_witness:
  "fst (generator (dark_light_collection (in_python faulty) 1 2) fresh) = Inl (Other ''DetectorFault'') \<and>
   last (new_events fresh (snd (generator (dark_light_collection (in_python faulty) 1 2) fresh))) =
     Raised (Other ''DetectorFault'') \<and>
   fst (custom_plan (in_python faulty) 1 60 1 fresh) = Inl (Other ''DetectorFault'') \<and>
   last (new_events fresh (snd (custom_plan stopping 1 60 1 fresh))) = Raised StopIteration \<and>
   fst (custom_plan stopping 1 60 1 fresh) = Inl (RuntimeError ''generator raised StopIteration'') \<and>
   fst (custom_plan (in_python sim) 1 60 1 rebound) = Inl (AttributeError ''append'') \<and>
   is_array (new_int_list (globals (rebound :: (sim_hw, int, string py_exc) cell)))"
proof -
  note F = helpers_let_exceptions_through[where pl = "in_python faulty" and sample_num = 1
      and num_lights = 2 and w = fresh and sleep_time = 60 and num_loops = 1 and wc = fresh]
  note S = helpers_let_exceptions_through[where pl = stopping and sample_num = 1
      and num_lights = 2 and w = fresh and sleep_time = 60 and num_loops = 1 and wc = fresh]
  note B = helpers_let_exceptions_through[where pl = "in_python sim" and sample_num = 1
      and num_lights = 2 and w = fresh and sleep_time = 60 and num_loops = 1 and wc = rebound]
  define r1 w1 where "r1 = fst (generator (dark_light_collection (in_python faulty) 1 2) fresh)"
    and "w1 = snd (generator (dark_light_collection (in_python faulty) 1 2) fresh)"
  have run1: "generator (dark_light_collection (in_python faulty) 1 2) fresh = (r1, w1)"
    by (simp add: r1_def w1_def)
  have "Raised (Other ''DetectorFault'') \<in> set (new_events fresh w1)"
    unfolding w1_def by (simp add: faulty_generator new_events_def) (simp add: fresh_def)
  with F[THEN conjunct1, rule_format, OF run1]
  have "last (new_events fresh w1) = Raised (Other ''DetectorFault'')"
    "r1 = Inl (pep479 (Other ''DetectorFault''))"
    by blast+
  then have a: "fst (generator (dark_light_collection (in_python faulty) 1 2) fresh) =
      Inl (Other ''DetectorFault'')"
    "last (new_events fresh (snd (generator (dark_light_collection (in_python faulty) 1 2) fresh))) =
     Raised (Other ''DetectorFault'')"
    unfolding r1_def w1_def by simp_all
  define r2 w2 where "r2 = fst (custom_plan (in_python faulty) 1 60 1 fresh)"
    and "w2 = snd (custom_plan (in_python faulty) 1 60 1 fresh)"
  have run2: "custom_plan (in_python faulty) 1 60 1 fresh = (r2, w2)"
    by (simp add: r2_def w2_def)
  have "Raised (Other ''DetectorFault'') \<in> set (new_events fresh w2)"
    unfolding w2_def by (simp add: faulty_custom_plan new_events_def) (simp add: fresh_def)
  with F[THEN conjunct2, THEN conjunct1, rule_format, OF run2]
  have "r2 = Inl (pep479 (Other ''DetectorFault''))"
    by blast
  then have b: "fst (custom_plan (in_python faulty) 1 60 1 fresh) = Inl (Other ''DetectorFault'')"
    unfolding r2_def by simp
  define r3 w3 where "r3 = fst (custom_plan stopping 1 60 1 fresh)"
    and "w3 = snd (custom_plan stopping 1 60 1 fresh)"
  have run3: "custom_plan stopping 1 60 1 fresh = (r3, w3)"
    by (simp add: r3_def w3_def)
  have "Raised StopIteration \<in> set (new_events fresh w3)"
    unfolding w3_def by (simp add: stopping_custom_plan new_events_def) (simp add: fresh_def)
  with S[THEN conjunct2, THEN conjunct1, rule_format, OF run3]
  have "last (new_events fresh w3) = Raised StopIteration" "r3 = Inl (pep479 StopIteration)"
    by blast+
  then have c: "last (new_events fresh (snd (custom_plan stopping 1 60 1 fresh))) = Raised StopIteration"
    "fst (custom_plan stopping 1 60 1 fresh) = Inl (RuntimeError ''generator raised StopIteration'')"
    unfolding r3_def w3_def by simp_all
  define w4 where "w4 = snd (custom_plan (in_python sim) 1 60 1 rebound)"
  have run4: "custom_plan (in_python sim) 1 60 1 rebound = (Inl (AttributeError ''append''), w4)"
    by (simp add: w4_def rebound_custom_plan)
  have none: "Raised e \<notin> set (new_events rebound w4)" for e
    unfolding w4_def by (simp add: rebound_custom_plan new_events_def) (auto simp: rebound_def)
  from B[THEN conjunct2, THEN conjunct1, rule_format, OF run4]
  have "(\<exists>e. Raised e \<in> set (new_events rebound w4) \<and> AttributeError ''append'' = pep479 e) \<or>
      is_array (new_int_list (globals (rebound :: (sim_hw, int, string py_exc) cell)))"
    by blast
  with none run4 have d: "fst (custom_plan (in_python sim) 1 60 1 rebound) = Inl (AttributeError ''append'')"
    "is_array (new_int_list (globals (rebound :: (sim_hw, int, string py_exc) cell)))"
    by simp_all
  from a b c d show ?thesis by (intro conjI)
qed


section \<open>The claim about the databroker demonstration\<close>

subsection \<open>\<^verbatim>\<open>mega_plan\<close>\<close>

lemma bp_count_outcome:
  assumes "bp_count bs ds m w = (Inr u, w')"
  shows "history w' = history w @ [Did (CountRun ds m)]"
  using assms by (auto simp: bp_count_def elim!: callE)

lemma bp_scan_outcome:
  assumes "bp_scan bs ds mot a b n m w = (Inr u, w')"
  shows "history w' = history w @ [Did (ScanRun ds mot a b n m)]"
  using assms by (auto simp: bp_scan_def elim!: callE)

lemma mega_loop_outcome:
  assumes "mega_loop bs base_md samples w = (Inr u, w')"
  shows "history w' = history w @
     map Did (concat (map (\<lambda>sample.
        [CountRun [det] (with_role_sample base_md ''calibration'' sample),
         ScanRun [det] motor (- 1) 3 10 (with_role_sample base_md ''ascan'' sample)]) samples))"
  using assms
proof (induction samples arbitrary: w)
  case Nil
  then show ?case by (auto elim!: retE)
next
  case (Cons sample samples)
  from Cons.prems obtain u1 w1 u2 w2 where
    c: "bp_count bs [det] (with_role_sample base_md ''calibration'' sample) w = (Inr u1, w1)" and
    s: "bp_scan bs [det] motor (- 1) 3 10 (with_role_sample base_md ''ascan'' sample) w1 = (Inr u2, w2)" and
    r: "mega_loop bs base_md samples w2 = (Inr u, w')"
    by (auto elim!: bndE)
  from Cons.IH[OF r] bp_count_outcome[OF c] bp_scan_outcome[OF s]
  show ?case by simp
qed

lemma returns_mega_loop:
  assumes "plans_never_raise bs"
  shows "returns (mega_loop bs base_md samples)"
  using assms
  by (induction samples)
     (simp_all add: returns_ret returns_bnd returns_call bp_count_def bp_scan_def
        plans_never_raise_def)

lemma counting_never_raises: "plans_never_raise counting"
  by (simp add: plans_never_raise_def returns_def counting_def)

lemma counting_bp_count:
  "bp_count counting ds m w =
     (Inr (str (hardware w)),
      w\<lparr>hardware := Suc (hardware w), history := history w @ [Did (CountRun ds m)]\<rparr>)"
  by (simp add: bp_count_def counting_def call_def)

lemma counting_bp_scan:
  "bp_scan counting ds mot a b n m w =
     (Inr (str (hardware w)),
      w\<lparr>hardware := Suc (hardware w), history := history w @ [Did (ScanRun ds mot a b n m)]\<rparr>)"
  by (simp add: bp_scan_def counting_def call_def)

text \<open>
  C9. For every operator string, \<^verbatim>\<open>mega_plan\<close> performs exactly six runs in a fixed order:
  for each of the samples A, B, C in that order, a count run whose metadata holds the
  operator, the role \<^verbatim>\<open>calibration\<close> and the sample, then a scan run whose metadata holds
  the operator, the role \<^verbatim>\<open>ascan\<close> and the sample. This is the log of every execution that
  runs to its end, and the plan does so whenever \<^verbatim>\<open>bp.count\<close> and \<^verbatim>\<open>bp.scan\<close> return.
\<close>

theorem mega_plan_six_runs:
  "(plans_never_raise bs \<longrightarrow> (\<exists>w'. mega_plan bs operator w = (Inr (), w'))) \<and>
   (\<forall>w'. mega_plan bs operator w = (Inr (), w') \<longrightarrow>
      history w' = history w @ new_events w w' \<and>
      new_events w w' = map Did
        [CountRun [det] [(''operator'', operator), (''role'', ''calibration''), (''sample'', ''A'')],
         ScanRun [det] motor (- 1) 3 10 [(''operator'', operator), (''role'', ''ascan''), (''sample'', ''A'')],
         CountRun [det] [(''operator'', operator), (''role'', ''calibration''), (''sample'', ''B'')],
         ScanRun [det] motor (- 1) 3 10 [(''operator'', operator), (''role'', ''ascan''), (''sample'', ''B'')],
         CountRun [det] [(''operator'', operator), (''role'', ''calibration''), (''sample'', ''C'')],
         ScanRun [det] motor (- 1) 3 10 [(''operator'', operator), (''role'', ''ascan''), (''sample'', ''C'')]])"
proof (intro conjI impI allI)
  assume "plans_never_raise bs"
  then have "returns (mega_plan bs operator)"
    unfolding mega_plan_def Let_def by (rule returns_mega_loop)
  then show "\<exists>w'. mega_plan bs operator w = (Inr (), w')"
    unfolding returns_def by simp
next
  fix w'
  assume "mega_plan bs operator w = (Inr (), w')"
  then have "mega_loop bs [(''operator'', operator)] [''A'', ''B'', ''C''] w = (Inr (), w')"
    unfolding mega_plan_def Let_def .
  from mega_loop_outcome[OF this] have h: "history w' = history w @ map Did
        [CountRun [det] [(''operator'', operator), (''role'', ''calibration''), (''sample'', ''A'')],
         ScanRun [det] motor (- 1) 3 10 [(''operator'', operator), (''role'', ''ascan''), (''sample'', ''A'')],
         CountRun [det] [(''operator'', operator), (''role'', ''calibration''), (''sample'', ''B'')],
         ScanRun [det] motor (- 1) 3 10 [(''operator'', operator), (''role'', ''ascan''), (''sample'', ''B'')],
         CountRun [det] [(''operator'', operator), (''role'', ''calibration''), (''sample'', ''C'')],
         ScanRun [det] motor (- 1) 3 10 [(''operator'', operator), (''role'', ''ascan''), (''sample'', ''C'')]]"
    by (simp add: with_role_sample_def)
  then show "new_events w w' = map Did
        [CountRun [det] [(''operator'', operator), (''role'', ''calibration''), (''sample'', ''A'')],
         ScanRun [det] motor (- 1) 3 10 [(''operator'', operator), (''role'', ''ascan''), (''sample'', ''A'')],
         CountRun [det] [(''operator'', operator), (''role'', ''calibration''), (''sample'', ''B'')],
         ScanRun [det] motor (- 1) 3 10 [(''operator'', operator), (''role'', ''ascan''), (''sample'', ''B'')],
         CountRun [det] [(''operator'', operator), (''role'', ''calibration''), (''sample'', ''C'')],
         ScanRun [det] motor (- 1) 3 10 [(''operator'', operator), (''role'', ''ascan''), (''sample'', ''C'')]]"
    by (rule new_events_append)
  with h show "history w' = history w @ new_events w w'" by simp
qed

theorem mega_plan_six_runs_witness:
  "plans_never_raise counting \<and>
   fst (mega_plan counting ''dallan'' blank) = Inr () \<and>
   new_events blank (snd (mega_plan counting ''dallan'' blank)) = map Did
        [CountRun [det] [(''operator'', ''dallan''), (''role'', ''calibration''), (''sample'', ''A'')],
         ScanRun [det] motor (- 1) 3 10 [(''operator'', ''dallan''), (''role'', ''ascan''), (''sample'', ''A'')],
         CountRun [det] [(''operator'', ''dallan''), (''role'', ''calibration''), (''sample'', ''B'')],
         ScanRun [det] motor (- 1) 3 10 [(''operator'', ''dallan''), (''role'', ''ascan''), (''sample'', ''B'')],
         CountRun [det] [(''operator'', ''dallan''), (''role'', ''calibration''), (''sample'', ''C'')],
         ScanRun [det] motor (- 1) 3 10 [(''operator'', ''dallan''), (''role'', ''ascan''), (''sample'', ''C'')]]"
proof -
  obtain w' where run: "mega_plan counting ''dallan'' blank = (Inr (), w')"
    by (simp add: mega_plan_def Let_def bnd_apply ret_apply counting_bp_count counting_bp_scan)
  from mega_plan_six_runs[of counting "''dallan''" blank] run counting_never_raises
  show ?thesis by auto
qed

end
